theory Spec2Isabelle
  imports Main
begin

section \<open>The website check endpoint (src/app/api/check/route.ts)\<close>

text \<open>
  The endpoint \<open>POST\<close> reads a URL from the request, fetches it once, queries the parsed
  document, and assembles a \<open>CheckResult\<close>. The HTTP client (axios), the HTML parser
  (cheerio) and the clock are libraries outside the repository: they enter the model as
  parameters. Everything between them, the checks and the scoring, is translated line by
  line. JavaScript numbers that hold counts (\<open>.length\<close>) are \<open>nat\<close>; the status code, the
  elapsed time and the scores are \<open>int\<close>. Strings are \<open>char list\<close>. The \<open>url\<close> member of the
  request and the body of the response are untyped in the source (\<open>any\<close>): they are values
  of \<open>js_value\<close>, and a method call on a value that lacks the method throws, which the
  outer \<open>catch\<close> of \<open>POST\<close> (lines 204-208) answers with HTTP 500.
\<close>

subsection \<open>Strings\<close>

definition startsWith :: "string \<Rightarrow> string \<Rightarrow> bool" where
  "startsWith s p = (take (length p) s = p)"

fun str_includes :: "string \<Rightarrow> string \<Rightarrow> bool" where
  "str_includes [] p = (p = [])"
| "str_includes (c # cs) p = (startsWith (c # cs) p \<or> str_includes cs p)"

text \<open>Lower-casing maps the letters A to Z to a to z and leaves every other character.\<close>

definition lower_char :: "char \<Rightarrow> char" where
  "lower_char c =
     (case map_of (zip ''ABCDEFGHIJKLMNOPQRSTUVWXYZ'' ''abcdefghijklmnopqrstuvwxyz'') c of
        Some c' \<Rightarrow> c' | None \<Rightarrow> c)"

definition toLowerCase :: "string \<Rightarrow> string" where
  "toLowerCase s = map lower_char s"

definition digit_char :: "nat \<Rightarrow> char" where
  "digit_char d = ''0123456789'' ! d"

fun string_of_nat :: "nat \<Rightarrow> string" where
  "string_of_nat n =
     (if n < 10 then [digit_char n] else string_of_nat (n div 10) @ [digit_char (n mod 10)])"

declare string_of_nat.simps [simp del]

definition string_of_int :: "int \<Rightarrow> string" where
  "string_of_int i = (if i < 0 then CHR ''-'' # string_of_nat (nat (- i)) else string_of_nat (nat i))"

subsection \<open>Data\<close>

text \<open>
  What \<open>JSON.parse\<close> can return, and \<open>undefined\<close>. axios parses a response body that is
  valid JSON, so \<open>response.data\<close> is a string only for other bodies (and for JSON
  strings). Of a number only its being zero matters here.
\<close>

datatype js_value =
  JUndefined | JNull | JBool bool | JNumber int | JString string
  | JArray "js_value list" | JObject "(string \<times> js_value) list"

text \<open>\<open>!v\<close>: undefined, null, false, 0 and the empty string are falsy.\<close>

fun falsy_value :: "js_value \<Rightarrow> bool" where
  "falsy_value JUndefined = True"
| "falsy_value JNull = True"
| "falsy_value (JBool b) = (\<not> b)"
| "falsy_value (JNumber n) = (n = 0)"
| "falsy_value (JString s) = (s = [])"
| "falsy_value (JArray xs) = False"
| "falsy_value (JObject kvs) = False"

text \<open>
  \<open>htmlContent.includes(p)\<close> for a string \<open>p\<close>: substring search when \<open>htmlContent\<close> is a
  string, membership when it is an array, and a \<open>TypeError\<close> for every other value. The
  text of the error is the runtime's: \<open>type_error v e\<close> is the message for calling \<open>e\<close>, a
  method that the value \<open>v\<close> of its receiver lacks.
\<close>

definition htmlContent_includes ::
  "(js_value \<Rightarrow> string \<Rightarrow> string) \<Rightarrow> js_value \<Rightarrow> string \<Rightarrow> string + bool" where
  "htmlContent_includes type_error htmlContent p =
     (case htmlContent of
        JString s \<Rightarrow> Inr (str_includes s p)
      | JArray xs \<Rightarrow> Inr (List.member xs (JString p))
      | _ \<Rightarrow> Inl (type_error htmlContent ''htmlContent.includes''))"

datatype status = Success | Error | Warning

record CheckResult =
  url :: string
  status :: status
  statusCode :: "int option"
  responseTime :: "int option"
  issues :: "string list"
  recommendations :: "string list"
  seoScore :: "int option"
  performanceScore :: "int option"
  securityScore :: "int option"
  timestamp :: string

text \<open>What \<open>axios.get\<close> resolves to, with the elapsed time measured around the call.\<close>

record response =
  elapsed :: int
  resp_status :: int
  resp_data :: js_value
  resp_headers :: "string \<rightharpoonup> string"

text \<open>
  The answers of the eight selector queries the endpoint puts to the parsed document:
  \<open>$('title').text()\<close>, \<open>$('meta[name="description"]').attr('content')\<close>, \<open>$('h1').length\<close>,
  \<open>$('img:not([alt])').length\<close>, \<open>$('meta[name="viewport"]').attr('content')\<close>,
  \<open>$('script:not([src])').length\<close>, \<open>$('script[src]').length\<close> and
  \<open>$('link[rel="stylesheet"]').length\<close>.
\<close>

record document =
  title_text :: string
  meta_description :: "string option"
  h1 :: nat
  img_not_alt :: nat
  meta_viewport :: "string option"
  script_not_src :: nat
  script_src :: nat
  link_stylesheet :: nat

text \<open>
  The mutable locals of \<open>POST\<close>. The three scores are declared at the head of their blocks
  in the source, each initialised to 100 and untouched before; here they are part of the
  state from the start, with the same initial value.
\<close>

record locals =
  l_issues :: "string list"
  l_recommendations :: "string list"
  l_seoScore :: int
  l_securityScore :: int
  l_performanceScore :: int

definition init_locals :: locals where
  "init_locals = \<lparr>l_issues = [], l_recommendations = [], l_seoScore = 100,
     l_securityScore = 100, l_performanceScore = 100\<rparr>"

definition push_issue :: "string \<Rightarrow> locals \<Rightarrow> locals" where
  "push_issue s l = l\<lparr>l_issues := l_issues l @ [s]\<rparr>"

definition push_recommendation :: "string \<Rightarrow> locals \<Rightarrow> locals" where
  "push_recommendation s l = l\<lparr>l_recommendations := l_recommendations l @ [s]\<rparr>"

datatype http_response = Json200 CheckResult | JsonError nat string

subsection \<open>URL normalisation (line 26)\<close>

definition normalizedUrl :: "string \<Rightarrow> string" where
  "normalizedUrl u = (if startsWith u ''http'' then u else ''https://'' @ u)"

subsection \<open>Status code and response time (lines 57-72)\<close>

definition check_status_code :: "int \<Rightarrow> locals \<Rightarrow> locals" where
  "check_status_code code l =
     (if code \<ge> 500 then push_issue (''Server error ('' @ string_of_int code @ '')'') l
      else if code \<ge> 400 then push_issue (''Client error ('' @ string_of_int code @ '')'') l
      else if code \<ge> 300 then push_issue (''Redirect detected ('' @ string_of_int code @ '')'') l
      else l)"

definition check_response_time :: "int \<Rightarrow> locals \<Rightarrow> locals" where
  "check_response_time t l =
     (if t > 3000 then
        push_recommendation ''Consider optimizing server performance or using a CDN''
          (push_issue ''Slow response time (>3 seconds)'' l)
      else if t > 1000 then
        push_recommendation ''Response time could be improved (currently >1 second)'' l
      else l)"

subsection \<open>SEO analysis (lines 77-122)\<close>

definition check_title :: "document \<Rightarrow> locals \<Rightarrow> locals" where
  "check_title d l =
     (if title_text d = [] then
        (push_issue ''Missing page title'' l)\<lparr>l_seoScore := l_seoScore l - 15\<rparr>
      else if length (title_text d) > 60 then
        (push_recommendation ''Page title is too long (should be under 60 characters)'' l)
          \<lparr>l_seoScore := l_seoScore l - 5\<rparr>
      else l)"

text \<open>\<open>!x\<close> on a value that is a string or undefined: undefined and the empty string.\<close>

definition falsy :: "string option \<Rightarrow> bool" where
  "falsy v = (case v of None \<Rightarrow> True | Some s \<Rightarrow> s = [])"

definition str_length :: "string option \<Rightarrow> nat" where
  "str_length v = (case v of None \<Rightarrow> 0 | Some s \<Rightarrow> length s)"

definition check_meta_description :: "document \<Rightarrow> locals \<Rightarrow> locals" where
  "check_meta_description d l =
     (if falsy (meta_description d) then
        (push_issue ''Missing meta description'' l)\<lparr>l_seoScore := l_seoScore l - 15\<rparr>
      else if str_length (meta_description d) > 160 then
        (push_recommendation ''Meta description is too long (should be under 160 characters)'' l)
          \<lparr>l_seoScore := l_seoScore l - 5\<rparr>
      else l)"

definition check_headings :: "document \<Rightarrow> locals \<Rightarrow> locals" where
  "check_headings d l =
     (if h1 d = 0 then
        (push_issue ''No H1 heading found'' l)\<lparr>l_seoScore := l_seoScore l - 10\<rparr>
      else if h1 d > 1 then
        (push_recommendation ''Multiple H1 headings detected (should have only one)'' l)
          \<lparr>l_seoScore := l_seoScore l - 5\<rparr>
      else l)"

definition check_images :: "document \<Rightarrow> locals \<Rightarrow> locals" where
  "check_images d l =
     (if img_not_alt d > 0 then
        (push_issue (string_of_nat (img_not_alt d) @ '' images missing alt text'') l)
          \<lparr>l_seoScore := l_seoScore l - min 10 (int (img_not_alt d) * 2)\<rparr>
      else l)"

definition check_viewport :: "document \<Rightarrow> locals \<Rightarrow> locals" where
  "check_viewport d l =
     (if falsy (meta_viewport d) then
        (push_issue ''Missing viewport meta tag for mobile responsiveness'' l)
          \<lparr>l_seoScore := l_seoScore l - 10\<rparr>
      else l)"

definition seo_analysis :: "document \<Rightarrow> locals \<Rightarrow> locals" where
  "seo_analysis d l =
     check_viewport d (check_images d (check_headings d (check_meta_description d (check_title d l))))"

subsection \<open>Security analysis (lines 124-147)\<close>

definition check_https :: "string \<Rightarrow> locals \<Rightarrow> locals" where
  "check_https u l =
     (if \<not> startsWith u ''https://'' then
        push_recommendation ''Enable HTTPS to secure data transmission''
          ((push_issue ''Website is not using HTTPS'' l)\<lparr>l_securityScore := l_securityScore l - 30\<rparr>)
      else l)"

definition securityHeaders :: "(string \<times> string) list" where
  "securityHeaders =
     [(''strict-transport-security'', ''Strict-Transport-Security''),
      (''x-frame-options'', ''X-Frame-Options''),
      (''x-content-type-options'', ''X-Content-Type-Options''),
      (''content-security-policy'', ''Content-Security-Policy'')]"

text \<open>The loop test \<open>!headers[headerKey] && !headers[headerKey.toLowerCase()]\<close>.\<close>

definition header_missing :: "(string \<rightharpoonup> string) \<Rightarrow> string \<Rightarrow> bool" where
  "header_missing hs headerKey = (falsy (hs headerKey) \<and> falsy (hs (toLowerCase headerKey)))"

fun check_security_headers :: "(string \<rightharpoonup> string) \<Rightarrow> (string \<times> string) list \<Rightarrow> locals \<Rightarrow> locals" where
  "check_security_headers hs [] l = l"
| "check_security_headers hs ((headerKey, headerName) # rest) l =
     check_security_headers hs rest
       (if header_missing hs headerKey then
          (push_recommendation (''Consider adding '' @ headerName @ '' header'') l)
            \<lparr>l_securityScore := l_securityScore l - 10\<rparr>
        else l)"

definition security_analysis :: "string \<Rightarrow> (string \<rightharpoonup> string) \<Rightarrow> locals \<Rightarrow> locals" where
  "security_analysis u hs l = check_security_headers hs securityHeaders (check_https u l)"

subsection \<open>Performance analysis (lines 149-175)\<close>

definition check_inline_scripts :: "document \<Rightarrow> locals \<Rightarrow> locals" where
  "check_inline_scripts d l =
     (if script_not_src d > 5 then
        (push_recommendation ''Consider reducing inline scripts and using external files'' l)
          \<lparr>l_performanceScore := l_performanceScore l - 10\<rparr>
      else l)"

definition check_external_scripts :: "document \<Rightarrow> locals \<Rightarrow> locals" where
  "check_external_scripts d l =
     (if script_src d > 15 then
        (push_recommendation ''Consider reducing number of external scripts'' l)
          \<lparr>l_performanceScore := l_performanceScore l - 10\<rparr>
      else l)"

definition check_stylesheets :: "document \<Rightarrow> locals \<Rightarrow> locals" where
  "check_stylesheets d l =
     (if link_stylesheet d > 10 then
        (push_recommendation ''Consider combining CSS files to reduce HTTP requests'' l)
          \<lparr>l_performanceScore := l_performanceScore l - 10\<rparr>
      else l)"

text \<open>
  The condition of line 172, \<open>htmlContent.includes('    ') || htmlContent.includes('\n\n\n')\<close>:
  the second call is made only when the first returns false, and either may throw.
\<close>

definition whitespace_test :: "(js_value \<Rightarrow> string \<Rightarrow> string) \<Rightarrow> js_value \<Rightarrow> string + bool" where
  "whitespace_test type_error htmlContent =
     (case htmlContent_includes type_error htmlContent ''    '' of
        Inl message \<Rightarrow> Inl message
      | Inr found \<Rightarrow>
          if found then Inr True
          else htmlContent_includes type_error htmlContent [CHR 0x0A, CHR 0x0A, CHR 0x0A])"

definition check_minification ::
  "(js_value \<Rightarrow> string \<Rightarrow> string) \<Rightarrow> js_value \<Rightarrow> locals \<Rightarrow> string + locals" where
  "check_minification type_error htmlContent l =
     (case whitespace_test type_error htmlContent of
        Inl message \<Rightarrow> Inl message
      | Inr found \<Rightarrow>
          Inr (if found then
                 (push_recommendation ''Consider minifying HTML for better performance'' l)
                   \<lparr>l_performanceScore := l_performanceScore l - 5\<rparr>
               else l))"

definition performance_analysis ::
  "(js_value \<Rightarrow> string \<Rightarrow> string) \<Rightarrow> document \<Rightarrow> js_value \<Rightarrow> locals \<Rightarrow> string + locals" where
  "performance_analysis type_error d htmlContent l =
     check_minification type_error htmlContent
       (check_stylesheets d (check_external_scripts d (check_inline_scripts d l)))"

subsection \<open>Overall status, positive feedback and the result (lines 177-203)\<close>

definition determine_status :: "int \<Rightarrow> locals \<Rightarrow> status" where
  "determine_status code l =
     (if length (l_issues l) > 5 \<or> code \<ge> 500 then Error
      else if length (l_issues l) > 0 \<or> length (l_recommendations l) > 3 then Warning
      else Success)"

definition add_positive_feedback :: "locals \<Rightarrow> locals" where
  "add_positive_feedback l =
     (if length (l_issues l) = 0 then push_recommendation ''Great job! No critical issues detected'' l
      else l)"

text \<open>
  All checks in the order of the source, from the empty lists: \<open>Inl message\<close> when line
  172 throws, else the locals as they stand at line 176.
\<close>

definition run_checks ::
  "(js_value \<Rightarrow> string \<Rightarrow> string) \<Rightarrow> string \<Rightarrow> document \<Rightarrow> response \<Rightarrow> string + locals" where
  "run_checks type_error u d r =
     performance_analysis type_error d (resp_data r)
       (security_analysis u (resp_headers r)
         (seo_analysis d
           (check_response_time (elapsed r) (check_status_code (resp_status r) init_locals))))"

definition build_result :: "string \<Rightarrow> string \<Rightarrow> response \<Rightarrow> locals \<Rightarrow> CheckResult" where
  "build_result u now r l =
     (let st = determine_status (resp_status r) l;
          l' = add_positive_feedback l
      in \<lparr>url = u, status = st, statusCode = Some (resp_status r),
          responseTime = Some (elapsed r), issues = l_issues l',
          recommendations = l_recommendations l',
          seoScore = Some (max 0 (l_seoScore l')),
          performanceScore = Some (max 0 (l_performanceScore l')),
          securityScore = Some (max 0 (l_securityScore l')),
          timestamp = now\<rparr>)"

definition fetch_failed :: "string \<Rightarrow> string \<Rightarrow> string \<Rightarrow> CheckResult" where
  "fetch_failed u now message =
     \<lparr>url = u, status = Error, statusCode = None, responseTime = None,
      issues = [''Failed to fetch website: '' @ message],
      recommendations = [''Ensure the website is accessible and not blocking requests''],
      seoScore = None, performanceScore = None, securityScore = None, timestamp = now\<rparr>"

text \<open>The outer \<open>catch\<close>: \<open>error.message || 'Internal server error'\<close> with status 500.\<close>

definition internal_error :: "string \<Rightarrow> http_response" where
  "internal_error message =
     JsonError 500 (if message = [] then ''Internal server error'' else message)"

text \<open>
  The endpoint. \<open>axios_get\<close> answers a URL with \<open>Inl message\<close> when the request throws and
  with \<open>Inr response\<close> otherwise. \<open>cheerio_load\<close> stands for \<open>cheerio.load\<close> and the eight
  queries: \<open>Inl message\<close> when one of them throws, else the answers. \<open>type_error\<close> gives
  the runtime's message for a call of a missing method, and \<open>now\<close> is the clock's reading
  as an ISO string. The request is \<open>Inl message\<close> when reading it throws (line 20), else
  the value of its \<open>url\<close> member, \<open>JUndefined\<close> when it has none. A truthy \<open>url\<close> that is
  not a string has no \<open>startsWith\<close>: line 26 throws.
\<close>

definition POST ::
  "(string \<Rightarrow> string + response) \<Rightarrow> (js_value \<Rightarrow> string + document)
     \<Rightarrow> (js_value \<Rightarrow> string \<Rightarrow> string) \<Rightarrow> string \<Rightarrow> string + js_value \<Rightarrow> http_response" where
  "POST axios_get cheerio_load type_error now request =
     (case request of
        Inl message \<Rightarrow> internal_error message
      | Inr url_value \<Rightarrow>
          if falsy_value url_value then JsonError 400 ''URL is required''
          else
            (case url_value of
               JString u \<Rightarrow>
                 (case axios_get (normalizedUrl u) of
                    Inl message \<Rightarrow> Json200 (fetch_failed (normalizedUrl u) now message)
                  | Inr r \<Rightarrow>
                      (case cheerio_load (resp_data r) of
                         Inl message \<Rightarrow> internal_error message
                       | Inr d \<Rightarrow>
                           (case run_checks type_error (normalizedUrl u) d r of
                              Inl message \<Rightarrow> internal_error message
                            | Inr l \<Rightarrow> Json200 (build_result (normalizedUrl u) now r l))))
             | _ \<Rightarrow> internal_error (type_error url_value ''url.startsWith'')))"

subsection \<open>The effect of a check as an increment\<close>

text \<open>
  Every check appends to the two lists and subtracts from the scores; none reads the lists
  or the scores it updates, apart from the final status derivation. \<open>after l e\<close> applies to
  \<open>l\<close> the effect that turned \<open>init_locals\<close> into \<open>e\<close>: the strings of \<open>e\<close> appended, and
  what \<open>e\<close> lost from 100 subtracted.
\<close>

definition after :: "locals \<Rightarrow> locals \<Rightarrow> locals" where
  "after l e =
     \<lparr>l_issues = l_issues l @ l_issues e,
      l_recommendations = l_recommendations l @ l_recommendations e,
      l_seoScore = l_seoScore l - (100 - l_seoScore e),
      l_securityScore = l_securityScore l - (100 - l_securityScore e),
      l_performanceScore = l_performanceScore l - (100 - l_performanceScore e)\<rparr>"

text \<open>
  The performance block for a given value of the condition of line 172; by
  \<open>performance_analysis_found\<close> below, \<open>performance_analysis\<close> is this function applied to
  the value of \<open>whitespace_test\<close>, when that does not throw.
\<close>

definition performance_checks :: "document \<Rightarrow> bool \<Rightarrow> locals \<Rightarrow> locals" where
  "performance_checks d found l =
     (let l3 = check_stylesheets d (check_external_scripts d (check_inline_scripts d l))
      in if found then
           (push_recommendation ''Consider minifying HTML for better performance'' l3)
             \<lparr>l_performanceScore := l_performanceScore l3 - 5\<rparr>
         else l3)"

subsection \<open>Fixtures\<close>

text \<open>A fetch that always throws, and one that always answers with a given response.\<close>

definition refusing_get :: "string \<Rightarrow> string + response" where
  "refusing_get u = Inl ''timeout of 10000ms exceeded''"

definition answering_get :: "response \<Rightarrow> string \<Rightarrow> string + response" where
  "answering_get r u = Inr r"

text \<open>A parser that answers every body with a given document, and one that throws.\<close>

definition parsed_as :: "document \<Rightarrow> js_value \<Rightarrow> string + document" where
  "parsed_as d body = Inr d"


text \<open>The message of V8 for a call of a method that a value does not have.\<close>

definition not_a_function :: "js_value \<Rightarrow> string \<Rightarrow> string" where
  "not_a_function v e = e @ '' is not a function''"

text \<open>A fetch that rejects the URL it is given.\<close>

definition rejecting_get :: "string \<Rightarrow> string + response" where
  "rejecting_get u = Inl ''Invalid URL''"

text \<open>
  The page of the worked example: \<open><title>Home</title>\<close>, one \<open>h1\<close>, a viewport tag with
  content, no description, no images, no scripts and no stylesheets.
\<close>

definition home_page :: document where
  "home_page = \<lparr>title_text = ''Home'', meta_description = None, h1 = 1, img_not_alt = 0,
     meta_viewport = Some ''width=device-width'', script_not_src = 0, script_src = 0,
     link_stylesheet = 0\<rparr>"

definition all_headers :: "string \<rightharpoonup> string" where
  "all_headers = map_of
     [(''strict-transport-security'', ''max-age=31536000''),
      (''x-frame-options'', ''DENY''),
      (''x-content-type-options'', ''nosniff''),
      (''content-security-policy'', ''default-src https:'')]"

definition home_response :: response where
  "home_response = \<lparr>elapsed = 120, resp_status = 200,
     resp_data = JString ''<title>Home</title><meta name=viewport content=width=device-width><h1>Hi</h1>'', resp_headers = all_headers\<rparr>"

text \<open>A page with every SEO and performance defect, served slowly with a server error.\<close>

definition poor_page :: document where
  "poor_page = \<lparr>title_text = [], meta_description = None, h1 = 0, img_not_alt = 6,
     meta_viewport = None, script_not_src = 6, script_src = 16, link_stylesheet = 11\<rparr>"

definition poor_response :: response where
  "poor_response = \<lparr>elapsed = 3500, resp_status = 503,
     resp_data = JString ''<p>    </p>'', resp_headers = Map.empty\<rparr>"

text \<open>The worked example with a description, answered with one of the four headers.\<close>

definition described_page :: document where
  "described_page = home_page\<lparr>meta_description := Some ''The home page''\<rparr>"

definition one_header_response :: response where
  "one_header_response = home_response\<lparr>resp_headers :=
     map_of [(''strict-transport-security'', ''max-age=31536000'')]\<rparr>"


subsection \<open>Header names up to case\<close>

text \<open>
  The reading of "absent, checked case-insensitively": no header whose name equals the
  given one up to case carries a value (an empty value counts as none). Node's HTTP
  parser, and axios after it, deliver header names in lower case: \<open>lower_case_names\<close>
  says so of a headers object.
\<close>

definition header_absent :: "(string \<rightharpoonup> string) \<Rightarrow> string \<Rightarrow> bool" where
  "header_absent hs name = (\<forall>k. toLowerCase k = toLowerCase name \<longrightarrow> falsy (hs k))"

definition lower_case_names :: "(string \<rightharpoonup> string) \<Rightarrow> bool" where
  "lower_case_names hs = (\<forall>k. hs k \<noteq> None \<longrightarrow> toLowerCase k = k)"

section \<open>Auxiliary facts\<close>

lemmas push_defs = push_issue_def push_recommendation_def

lemma after_init [simp]: "after l init_locals = l"
  by (simp add: after_def init_locals_def)

lemma init_after [simp]: "after init_locals e = e"
  by (simp add: after_def init_locals_def)

lemma after_assoc: "after (after l a) b = after l (after a b)"
  by (simp add: after_def)

lemma after_comp:
  assumes f: "\<And>l. f l = after l (f init_locals)"
    and g: "\<And>l. g l = after l (g init_locals)"
  shows "g (f l) = after l (g (f init_locals))"
proof -
  have "g (f l) = after (f l) (g init_locals)"
    by (rule g)
  also have "\<dots> = after (after l (f init_locals)) (g init_locals)"
    using f [of l] by simp
  also have "\<dots> = after l (after (f init_locals) (g init_locals))"
    by (rule after_assoc)
  also have "after (f init_locals) (g init_locals) = g (f init_locals)"
    by (rule g [symmetric])
  finally show ?thesis .
qed

lemma check_status_code_after: "check_status_code c l = after l (check_status_code c init_locals)"
  by (simp add: check_status_code_def push_defs after_def init_locals_def)

lemma check_response_time_after: "check_response_time t l = after l (check_response_time t init_locals)"
  by (simp add: check_response_time_def push_defs after_def init_locals_def)

lemma check_title_after: "check_title d l = after l (check_title d init_locals)"
  by (simp add: check_title_def push_defs after_def init_locals_def)

lemma check_meta_description_after:
  "check_meta_description d l = after l (check_meta_description d init_locals)"
  by (simp add: check_meta_description_def push_defs after_def init_locals_def)

lemma check_headings_after: "check_headings d l = after l (check_headings d init_locals)"
  by (simp add: check_headings_def push_defs after_def init_locals_def)

lemma check_images_after: "check_images d l = after l (check_images d init_locals)"
  by (simp add: check_images_def push_defs after_def init_locals_def)

lemma check_viewport_after: "check_viewport d l = after l (check_viewport d init_locals)"
  by (simp add: check_viewport_def push_defs after_def init_locals_def)


lemma seo_analysis_after: "seo_analysis d l = after l (seo_analysis d init_locals)"
proof -
  let ?c2 = "\<lambda>l. check_meta_description d (check_title d l)"
  let ?c3 = "\<lambda>l. check_headings d (?c2 l)"
  let ?c4 = "\<lambda>l. check_images d (?c3 l)"
  have 2: "?c2 l = after l (?c2 init_locals)" for l
    by (rule after_comp [of "check_title d" "check_meta_description d"])
      (rule check_title_after check_meta_description_after)+
  have 3: "?c3 l = after l (?c3 init_locals)" for l
    by (rule after_comp [of ?c2 "check_headings d"]) (rule 2 check_headings_after)+
  have 4: "?c4 l = after l (?c4 init_locals)" for l
    by (rule after_comp [of ?c3 "check_images d"]) (rule 3 check_images_after)+
  show ?thesis
    unfolding seo_analysis_def
    by (rule after_comp [of ?c4 "check_viewport d"]) (rule 4 check_viewport_after)+
qed

lemma check_https_after: "check_https u l = after l (check_https u init_locals)"
  by (simp add: check_https_def push_defs after_def init_locals_def)

lemma check_security_headers_after:
  "check_security_headers hs xs l = after l (check_security_headers hs xs init_locals)"
proof (induction xs arbitrary: l)
  case Nil
  show ?case by simp
next
  case (Cons x xs)
  obtain headerKey headerName where x: "x = (headerKey, headerName)"
    by (cases x)
  let ?step = "\<lambda>l. if header_missing hs headerKey then
      (push_recommendation (''Consider adding '' @ headerName @ '' header'') l)
        \<lparr>l_securityScore := l_securityScore l - 10\<rparr> else l"
  have step: "?step l = after l (?step init_locals)" for l
    by (simp add: push_defs after_def init_locals_def)
  have "check_security_headers hs xs (?step l) =
      after l (check_security_headers hs xs (?step init_locals))"
    by (rule after_comp [of ?step "check_security_headers hs xs"]) (rule step Cons.IH)+
  then show ?case
    by (simp add: x)
qed

lemma security_analysis_after:
  "security_analysis u hs l = after l (security_analysis u hs init_locals)"
  unfolding security_analysis_def
  by (rule after_comp [of "check_https u" "check_security_headers hs securityHeaders"])
    (rule check_https_after check_security_headers_after)+

lemma check_inline_scripts_after: "check_inline_scripts d l = after l (check_inline_scripts d init_locals)"
  by (simp add: check_inline_scripts_def push_defs after_def init_locals_def)

lemma check_external_scripts_after:
  "check_external_scripts d l = after l (check_external_scripts d init_locals)"
  by (simp add: check_external_scripts_def push_defs after_def init_locals_def)

lemma check_stylesheets_after: "check_stylesheets d l = after l (check_stylesheets d init_locals)"
  by (simp add: check_stylesheets_def push_defs after_def init_locals_def)

lemma performance_checks_after:
  "performance_checks d found l = after l (performance_checks d found init_locals)"
proof -
  let ?c2 = "\<lambda>l. check_external_scripts d (check_inline_scripts d l)"
  let ?c3 = "\<lambda>l. check_stylesheets d (?c2 l)"
  let ?m = "\<lambda>l. if found then
      (push_recommendation ''Consider minifying HTML for better performance'' l)
        \<lparr>l_performanceScore := l_performanceScore l - 5\<rparr> else l"
  have 2: "?c2 l = after l (?c2 init_locals)" for l
    by (rule after_comp [of "check_inline_scripts d" "check_external_scripts d"])
      (rule check_inline_scripts_after check_external_scripts_after)+
  have 3: "?c3 l = after l (?c3 init_locals)" for l
    by (rule after_comp [of ?c2 "check_stylesheets d"]) (rule 2 check_stylesheets_after)+
  have m: "?m l = after l (?m init_locals)" for l
    by (simp add: push_defs after_def init_locals_def)
  have "?m (?c3 l) = after l (?m (?c3 init_locals))"
    by (rule after_comp [of ?c3 ?m]) (rule 3 m)+
  then show ?thesis
    by (simp add: performance_checks_def Let_def)
qed

lemma whitespace_test_text:
  "whitespace_test type_error (JString s) =
     Inr (str_includes s ''    '' \<or> str_includes s [CHR 0x0A, CHR 0x0A, CHR 0x0A])"
  by (simp add: whitespace_test_def htmlContent_includes_def)

lemma performance_analysis_found:
  "performance_analysis type_error d htmlContent l =
     map_sum id (\<lambda>found. performance_checks d found l) (whitespace_test type_error htmlContent)"
  by (simp add: performance_analysis_def check_minification_def performance_checks_def Let_def
      split: sum.splits)

lemma performance_analysis_after:
  "performance_analysis type_error d htmlContent l =
     map_sum id (after l) (performance_analysis type_error d htmlContent init_locals)"
proof (cases "whitespace_test type_error htmlContent")
  case (Inl message)
  then show ?thesis
    by (simp add: performance_analysis_found)
next
  case (Inr found)
  then show ?thesis
    using performance_checks_after [of d found l] by (simp add: performance_analysis_found)
qed

lemma toLowerCase_securityHeaders:
  "toLowerCase ''strict-transport-security'' = ''strict-transport-security''"
  "toLowerCase ''x-frame-options'' = ''x-frame-options''"
  "toLowerCase ''x-content-type-options'' = ''x-content-type-options''"
  "toLowerCase ''content-security-policy'' = ''content-security-policy''"
  by (simp_all add: toLowerCase_def lower_char_def)

lemma string_of_int_examples:
  "string_of_int 200 = ''200''" "string_of_int 301 = ''301''"
  "string_of_int 404 = ''404''" "string_of_int 503 = ''503''"
  by (simp_all add: string_of_int_def string_of_nat.simps digit_char_def)

lemma check_security_headers_four:
  "check_security_headers hs securityHeaders l =
     l\<lparr>l_recommendations := l_recommendations l @
        (if falsy (hs ''strict-transport-security'')
           then [''Consider adding Strict-Transport-Security header''] else []) @
        (if falsy (hs ''x-frame-options'')
           then [''Consider adding X-Frame-Options header''] else []) @
        (if falsy (hs ''x-content-type-options'')
           then [''Consider adding X-Content-Type-Options header''] else []) @
        (if falsy (hs ''content-security-policy'')
           then [''Consider adding Content-Security-Policy header''] else []),
      l_securityScore := l_securityScore l
        - (if falsy (hs ''strict-transport-security'') then 10 else 0)
        - (if falsy (hs ''x-frame-options'') then 10 else 0)
        - (if falsy (hs ''x-content-type-options'') then 10 else 0)
        - (if falsy (hs ''content-security-policy'') then 10 else 0)\<rparr>"
  by (simp add: securityHeaders_def header_missing_def toLowerCase_securityHeaders
      push_recommendation_def)

lemmas seo_check_defs = seo_analysis_def check_title_def check_meta_description_def
  check_headings_def check_images_def check_viewport_def

lemmas performance_check_defs = performance_checks_def check_inline_scripts_def
  check_external_scripts_def check_stylesheets_def

lemma classifiers_scores:
  "l_seoScore (check_response_time t (check_status_code c l)) = l_seoScore l"
  "l_securityScore (check_response_time t (check_status_code c l)) = l_securityScore l"
  "l_performanceScore (check_response_time t (check_status_code c l)) = l_performanceScore l"
  by (simp_all add: check_response_time_def check_status_code_def push_defs)

lemma init_locals_fields:
  "l_issues init_locals = []" "l_recommendations init_locals = []"
  "l_seoScore init_locals = 100" "l_securityScore init_locals = 100"
  "l_performanceScore init_locals = 100"
  by (simp_all add: init_locals_def)

lemma seo_checks_bounds:
  "l_seoScore l - 15 \<le> l_seoScore (check_title d l) \<and> l_seoScore (check_title d l) \<le> l_seoScore l"
  "l_seoScore l - 15 \<le> l_seoScore (check_meta_description d l)
     \<and> l_seoScore (check_meta_description d l) \<le> l_seoScore l"
  "l_seoScore l - 10 \<le> l_seoScore (check_headings d l) \<and> l_seoScore (check_headings d l) \<le> l_seoScore l"
  "l_seoScore l - 10 \<le> l_seoScore (check_images d l) \<and> l_seoScore (check_images d l) \<le> l_seoScore l"
  "l_seoScore l - 10 \<le> l_seoScore (check_viewport d l) \<and> l_seoScore (check_viewport d l) \<le> l_seoScore l"
  by (simp_all add: check_title_def check_meta_description_def check_headings_def
      check_images_def check_viewport_def push_defs)

lemma seo_analysis_bounds:
  "l_seoScore l - 60 \<le> l_seoScore (seo_analysis d l)" "l_seoScore (seo_analysis d l) \<le> l_seoScore l"
proof -
  let ?l1 = "check_title d l"
  let ?l2 = "check_meta_description d ?l1"
  let ?l3 = "check_headings d ?l2"
  let ?l4 = "check_images d ?l3"
  have "l_seoScore l - 60 \<le> l_seoScore (check_viewport d ?l4)
      \<and> l_seoScore (check_viewport d ?l4) \<le> l_seoScore l"
    using seo_checks_bounds(1) [where l = l and d = d]
      seo_checks_bounds(2) [where l = ?l1 and d = d]
      seo_checks_bounds(3) [where l = ?l2 and d = d]
      seo_checks_bounds(4) [where l = ?l3 and d = d]
      seo_checks_bounds(5) [where l = ?l4 and d = d]
    by linarith
  then show "l_seoScore l - 60 \<le> l_seoScore (seo_analysis d l)"
    and "l_seoScore (seo_analysis d l) \<le> l_seoScore l"
    by (simp_all add: seo_analysis_def)
qed

lemma seo_checks_frame:
  "l_securityScore (check_title d l) = l_securityScore l"
  "l_performanceScore (check_title d l) = l_performanceScore l"
  "l_securityScore (check_meta_description d l) = l_securityScore l"
  "l_performanceScore (check_meta_description d l) = l_performanceScore l"
  "l_securityScore (check_headings d l) = l_securityScore l"
  "l_performanceScore (check_headings d l) = l_performanceScore l"
  "l_securityScore (check_images d l) = l_securityScore l"
  "l_performanceScore (check_images d l) = l_performanceScore l"
  "l_securityScore (check_viewport d l) = l_securityScore l"
  "l_performanceScore (check_viewport d l) = l_performanceScore l"
  by (simp_all add: check_title_def check_meta_description_def check_headings_def
      check_images_def check_viewport_def push_defs)

lemma seo_analysis_init_scores:
  "40 \<le> l_seoScore (seo_analysis d init_locals)"
  "l_seoScore (seo_analysis d init_locals) \<le> 100"
  "l_securityScore (seo_analysis d init_locals) = 100"
  "l_performanceScore (seo_analysis d init_locals) = 100"
proof -
  show "40 \<le> l_seoScore (seo_analysis d init_locals)"
    using seo_analysis_bounds(1) [where l = init_locals and d = d]
    by (simp add: init_locals_fields)
  show "l_seoScore (seo_analysis d init_locals) \<le> 100"
    using seo_analysis_bounds(2) [where l = init_locals and d = d]
    by (simp add: init_locals_fields)
  show "l_securityScore (seo_analysis d init_locals) = 100"
    by (simp add: seo_analysis_def seo_checks_frame init_locals_fields)
  show "l_performanceScore (seo_analysis d init_locals) = 100"
    by (simp add: seo_analysis_def seo_checks_frame init_locals_fields)
qed

lemma security_analysis_init_scores:
  "30 \<le> l_securityScore (security_analysis u hs init_locals)"
  "l_securityScore (security_analysis u hs init_locals) \<le> 100"
  "l_seoScore (security_analysis u hs init_locals) = 100"
  "l_performanceScore (security_analysis u hs init_locals) = 100"
  by (simp_all add: security_analysis_def check_security_headers_four check_https_def
      push_defs init_locals_fields)

lemma performance_checks_init_scores:
  "65 \<le> l_performanceScore (performance_checks d found init_locals)"
  "l_performanceScore (performance_checks d found init_locals) \<le> 100"
  "l_seoScore (performance_checks d found init_locals) = 100"
  "l_securityScore (performance_checks d found init_locals) = 100"
  "l_issues (performance_checks d found init_locals) = []"
  by (simp_all add: performance_check_defs Let_def push_defs init_locals_fields)

lemma run_checks_found:
  "run_checks type_error u d r =
     map_sum id
       (\<lambda>found.
          after (after (after (check_response_time (elapsed r) (check_status_code (resp_status r) init_locals))
                   (seo_analysis d init_locals))
                 (security_analysis u (resp_headers r) init_locals))
            (performance_checks d found init_locals))
       (whitespace_test type_error (resp_data r))"
proof -
  let ?pre = "check_response_time (elapsed r) (check_status_code (resp_status r) init_locals)"
  let ?before = "security_analysis u (resp_headers r) (seo_analysis d ?pre)"
  have before: "?before =
      after (after ?pre (seo_analysis d init_locals)) (security_analysis u (resp_headers r) init_locals)"
  proof -
    have seo: "seo_analysis d ?pre = after ?pre (seo_analysis d init_locals)"
      by (rule seo_analysis_after)
    have "?before = after (seo_analysis d ?pre) (security_analysis u (resp_headers r) init_locals)"
      by (rule security_analysis_after)
    then show ?thesis
      by (simp only: seo)
  qed
  have "run_checks type_error u d r =
      map_sum id (\<lambda>found. performance_checks d found ?before) (whitespace_test type_error (resp_data r))"
    by (simp add: run_checks_def performance_analysis_found)
  also have "(\<lambda>found. performance_checks d found ?before) =
      (\<lambda>found. after ?before (performance_checks d found init_locals))"
    by (rule ext) (rule performance_checks_after)
  finally show ?thesis
    by (simp only: before)
qed

lemma run_checks_blocks:
  assumes "run_checks type_error u d r = Inr l"
  shows "\<exists>perf. performance_analysis type_error d (resp_data r) init_locals = Inr perf
     \<and> l = after (after (after (check_response_time (elapsed r) (check_status_code (resp_status r) init_locals))
                   (seo_analysis d init_locals))
                 (security_analysis u (resp_headers r) init_locals)) perf"
  using assms
  by (cases "whitespace_test type_error (resp_data r)")
    (auto simp add: run_checks_found performance_analysis_found)

lemma run_checks_text:
  assumes "resp_data r = JString body"
  shows "\<exists>l. run_checks type_error u d r = Inr l"
  using assms by (simp add: run_checks_found whitespace_test_text)

lemma run_checks_scores:
  assumes "run_checks type_error u d r = Inr l"
  shows "l_seoScore l = l_seoScore (seo_analysis d init_locals)"
    and "l_securityScore l = l_securityScore (security_analysis u (resp_headers r) init_locals)"
    and "65 \<le> l_performanceScore l" and "l_performanceScore l \<le> 100"
  using assms
  by (cases "whitespace_test type_error (resp_data r)";
      auto simp add: run_checks_found after_def classifiers_scores seo_analysis_init_scores
        security_analysis_init_scores performance_checks_init_scores init_locals_fields)+

lemma add_positive_feedback_fields:
  "l_issues (add_positive_feedback l) = l_issues l"
  "l_seoScore (add_positive_feedback l) = l_seoScore l"
  "l_securityScore (add_positive_feedback l) = l_securityScore l"
  "l_performanceScore (add_positive_feedback l) = l_performanceScore l"
  by (simp_all add: add_positive_feedback_def push_recommendation_def)

lemma build_result_fields:
  "url (build_result u now r l) = u"
  "status (build_result u now r l) = determine_status (resp_status r) l"
  "statusCode (build_result u now r l) = Some (resp_status r)"
  "responseTime (build_result u now r l) = Some (elapsed r)"
  "issues (build_result u now r l) = l_issues l"
  "recommendations (build_result u now r l) = l_recommendations (add_positive_feedback l)"
  "seoScore (build_result u now r l) = Some (max 0 (l_seoScore l))"
  "performanceScore (build_result u now r l) = Some (max 0 (l_performanceScore l))"
  "securityScore (build_result u now r l) = Some (max 0 (l_securityScore l))"
  "timestamp (build_result u now r l) = now"
  by (simp_all add: build_result_def Let_def add_positive_feedback_fields)


lemma seo_analysis_seoScore_images:
  "l_seoScore (seo_analysis d l) =
     l_seoScore (seo_analysis (d\<lparr>img_not_alt := 0\<rparr>) l) - min 10 (int (img_not_alt d) * 2)"
proof -
  have t: "check_title (d\<lparr>img_not_alt := 0\<rparr>) = check_title d"
    by (rule ext) (simp add: check_title_def)
  have m: "check_meta_description (d\<lparr>img_not_alt := 0\<rparr>) = check_meta_description d"
    by (rule ext) (simp add: check_meta_description_def)
  have h: "check_headings (d\<lparr>img_not_alt := 0\<rparr>) = check_headings d"
    by (rule ext) (simp add: check_headings_def)
  have i: "check_images (d\<lparr>img_not_alt := 0\<rparr>) l' = l'" for l'
    by (simp add: check_images_def)
  have i': "l_seoScore (check_images d l') = l_seoScore l' - min 10 (int (img_not_alt d) * 2)" for l'
    by (simp add: check_images_def push_defs)
  have v: "l_seoScore (check_viewport d' l') =
      l_seoScore l' - (if falsy (meta_viewport d') then 10 else 0)" for d' l'
    by (simp add: check_viewport_def push_defs)
  show ?thesis
    by (simp add: seo_analysis_def t m h i i' v)
qed

lemma seo_analysis_issues_images:
  assumes "img_not_alt d > 0"
  shows "string_of_nat (img_not_alt d) @ '' images missing alt text'' \<in> set (l_issues (seo_analysis d l))"
proof -
  have v: "set (l_issues l') \<subseteq> set (l_issues (check_viewport d l'))" for l'
    by (auto simp add: check_viewport_def push_defs)
  have "string_of_nat (img_not_alt d) @ '' images missing alt text'' \<in> set (l_issues (check_images d l'))" for l'
    using assms by (simp add: check_images_def push_defs)
  then show ?thesis
    unfolding seo_analysis_def using v by blast
qed

lemma POST_clock:
  "POST axios_get cheerio_load type_error now' request =
     (case POST axios_get cheerio_load type_error now request of
        Json200 rep \<Rightarrow> Json200 (rep\<lparr>timestamp := now'\<rparr>)
      | JsonError code message \<Rightarrow> JsonError code message)"
  by (simp add: POST_def build_result_def fetch_failed_def internal_error_def Let_def
      split: sum.splits js_value.splits)

lemma POST_answers:
  assumes "u \<noteq> []" and "axios_get (normalizedUrl u) = Inr r"
  shows "case POST axios_get cheerio_load type_error now (Inr (JString u)) of
      Json200 rep \<Rightarrow>
        (\<exists>d l. cheerio_load (resp_data r) = Inr d
           \<and> run_checks type_error (normalizedUrl u) d r = Inr l
           \<and> rep = build_result (normalizedUrl u) now r l)
    | JsonError code message \<Rightarrow>
        code = 500
        \<and> ((\<exists>m. cheerio_load (resp_data r) = Inl m)
           \<or> (\<exists>m. whitespace_test type_error (resp_data r) = Inl m))"
proof (cases "cheerio_load (resp_data r)")
  case (Inl m)
  with assms show ?thesis
    by (simp add: POST_def internal_error_def)
next
  case (Inr d)
  show ?thesis
  proof (cases "whitespace_test type_error (resp_data r)")
    case (Inl m)
    with Inr assms show ?thesis
      by (simp add: POST_def internal_error_def run_checks_found)
  next
    case found: (Inr found)
    with Inr assms show ?thesis
      by (simp add: POST_def run_checks_found)
  qed
qed

lemma POST_text:
  assumes "u \<noteq> []" and "axios_get (normalizedUrl u) = Inr r"
    and "resp_data r = JString body" and "cheerio_load (resp_data r) = Inr d"
  shows "\<exists>l. run_checks type_error (normalizedUrl u) d r = Inr l
     \<and> POST axios_get cheerio_load type_error now (Inr (JString u)) =
         Json200 (build_result (normalizedUrl u) now r l)"
proof -
  from assms(3) obtain l where "run_checks type_error (normalizedUrl u) d r = Inr l"
    using run_checks_text by blast
  with assms show ?thesis
    by (simp add: POST_def)
qed


lemma POST_fetched_report:
  assumes "u \<noteq> []" and "axios_get (normalizedUrl u) = Inr r"
    and "\<And>d l. cheerio_load (resp_data r) = Inr d \<Longrightarrow>
           run_checks type_error (normalizedUrl u) d r = Inr l \<Longrightarrow>
           P (build_result (normalizedUrl u) now r l)"
  shows "case POST axios_get cheerio_load type_error now (Inr (JString u)) of
      Json200 rep \<Rightarrow> P rep
    | JsonError code message \<Rightarrow>
        code = 500
        \<and> ((\<exists>m. cheerio_load (resp_data r) = Inl m)
           \<or> (\<exists>m. whitespace_test type_error (resp_data r) = Inl m))"
  using POST_answers [where axios_get = axios_get and u = u and r = r
      and cheerio_load = cheerio_load and type_error = type_error and now = now, OF assms(1,2)]
    assms(3)
  by (auto split: http_response.splits)

lemma POST_fetched_report_500:
  assumes "u \<noteq> []" and "axios_get (normalizedUrl u) = Inr r"
    and "\<And>d l. cheerio_load (resp_data r) = Inr d \<Longrightarrow>
           run_checks type_error (normalizedUrl u) d r = Inr l \<Longrightarrow>
           P (build_result (normalizedUrl u) now r l)"
  shows "case POST axios_get cheerio_load type_error now (Inr (JString u)) of
      Json200 rep \<Rightarrow> P rep
    | JsonError code message \<Rightarrow> code = 500"
  using POST_fetched_report [where P = P and axios_get = axios_get and u = u and r = r
      and cheerio_load = cheerio_load and type_error = type_error and now = now, OF assms]
  by (cases "POST axios_get cheerio_load type_error now (Inr (JString u))") simp_all

lemma poor_run:
  "run_checks not_a_function ''http://example.com'' poor_page poor_response =
     Inr \<lparr>l_issues =
         [''Server error (503)'', ''Slow response time (>3 seconds)'',
          ''Missing page title'', ''Missing meta description'', ''No H1 heading found'',
          ''6 images missing alt text'', ''Missing viewport meta tag for mobile responsiveness'',
          ''Website is not using HTTPS''],
       l_recommendations =
         [''Consider optimizing server performance or using a CDN'',
          ''Enable HTTPS to secure data transmission'',
          ''Consider adding Strict-Transport-Security header'',
          ''Consider adding X-Frame-Options header'',
          ''Consider adding X-Content-Type-Options header'',
          ''Consider adding Content-Security-Policy header'',
          ''Consider reducing inline scripts and using external files'',
          ''Consider reducing number of external scripts'',
          ''Consider combining CSS files to reduce HTTP requests'',
          ''Consider minifying HTML for better performance''],
       l_seoScore = 40, l_securityScore = 30, l_performanceScore = 65\<rparr>"
  by (simp add: run_checks_def performance_analysis_def check_minification_def
      whitespace_test_text check_status_code_def check_response_time_def seo_check_defs
      security_analysis_def check_security_headers_four check_https_def
      check_inline_scripts_def check_external_scripts_def check_stylesheets_def
      push_defs init_locals_def poor_page_def poor_response_def falsy_def startsWith_def
      string_of_int_examples string_of_nat.simps digit_char_def)

lemma one_header_run:
  "run_checks not_a_function ''https://example.com'' described_page one_header_response =
     Inr (init_locals\<lparr>l_recommendations :=
       [''Consider adding X-Frame-Options header'',
        ''Consider adding X-Content-Type-Options header'',
        ''Consider adding Content-Security-Policy header''],
       l_securityScore := 70\<rparr>)"
  by (simp add: run_checks_def performance_analysis_def check_minification_def
      whitespace_test_text check_status_code_def check_response_time_def seo_check_defs
      security_analysis_def check_security_headers_four check_https_def
      check_inline_scripts_def check_external_scripts_def check_stylesheets_def
      push_defs init_locals_def described_page_def home_page_def one_header_response_def
      home_response_def falsy_def str_length_def startsWith_def)

lemma normalizedUrl_examples:
  "normalizedUrl ''example.com'' = ''https://example.com''"
  "normalizedUrl ''http://example.com'' = ''http://example.com''"
  "normalizedUrl ''https://example.com'' = ''https://example.com''"
  "normalizedUrl ''httpbin.org'' = ''httpbin.org''"
  by (simp_all add: normalizedUrl_def startsWith_def)

lemma run_checks_images:
  "(case run_checks type_error u d r of
      Inl message \<Rightarrow> run_checks type_error u (d\<lparr>img_not_alt := 0\<rparr>) r = Inl message
    | Inr l \<Rightarrow>
        (\<exists>l0. run_checks type_error u (d\<lparr>img_not_alt := 0\<rparr>) r = Inr l0
           \<and> l_seoScore l = l_seoScore l0 - min 10 (2 * int (img_not_alt d))
           \<and> (if img_not_alt d > 0
              then string_of_nat (img_not_alt d) @ '' images missing alt text'' \<in> set (l_issues l)
              else l_issues l = l_issues l0)))"
proof (cases "whitespace_test type_error (resp_data r)")
  case (Inl message)
  then show ?thesis
    by (simp add: run_checks_found)
next
  case (Inr found)
  let ?d0 = "d\<lparr>img_not_alt := 0\<rparr>"
  obtain l where l: "run_checks type_error u d r = Inr l"
    using Inr by (simp add: run_checks_found)
  obtain l0 where l0: "run_checks type_error u ?d0 r = Inr l0"
    using Inr by (simp add: run_checks_found)
  have score: "l_seoScore l = l_seoScore l0 - min 10 (2 * int (img_not_alt d))"
    using run_checks_scores(1) [OF l] run_checks_scores(1) [OF l0]
      seo_analysis_seoScore_images [of d init_locals]
    by (simp add: mult.commute)
  have issue: "if img_not_alt d > 0
      then string_of_nat (img_not_alt d) @ '' images missing alt text'' \<in> set (l_issues l)
      else l_issues l = l_issues l0"
  proof (cases "img_not_alt d > 0")
    case True
    from run_checks_blocks [OF l] obtain perf where
      "l = after (after (after (check_response_time (elapsed r) (check_status_code (resp_status r) init_locals))
                   (seo_analysis d init_locals))
                 (security_analysis u (resp_headers r) init_locals)) perf"
      by blast
    with True show ?thesis
      using seo_analysis_issues_images [of d init_locals]
      by (simp add: after_def)
  next
    case False
    then have same: "?d0 = d"
      by simp
    from l l0 have "l0 = l"
      unfolding same by simp
    with False show ?thesis
      by simp
  qed
  from l l0 score issue show ?thesis
    by simp
qed

lemma header_absent_lower:
  assumes "lower_case_names hs" and "toLowerCase name = headerKey"
    and "toLowerCase headerKey = headerKey"
  shows "header_absent hs name = falsy (hs headerKey)"
proof
  assume "header_absent hs name"
  with assms(2,3) show "falsy (hs headerKey)"
    by (simp add: header_absent_def)
next
  assume missing: "falsy (hs headerKey)"
  show "header_absent hs name"
    unfolding header_absent_def
  proof (intro allI impI)
    fix k
    assume k: "toLowerCase k = toLowerCase name"
    show "falsy (hs k)"
    proof (cases "hs k")
      case None
      then show ?thesis
        by (simp add: falsy_def)
    next
      case (Some v)
      with assms(1) have "toLowerCase k = k"
        by (simp add: lower_case_names_def)
      with k assms(2) have "k = headerKey"
        by simp
      with missing show ?thesis
        by simp
    qed
  qed
qed

lemma toLowerCase_canonical:
  "toLowerCase ''Strict-Transport-Security'' = ''strict-transport-security''"
  "toLowerCase ''X-Frame-Options'' = ''x-frame-options''"
  "toLowerCase ''X-Content-Type-Options'' = ''x-content-type-options''"
  "toLowerCase ''Content-Security-Policy'' = ''content-security-policy''"
  by (simp_all add: toLowerCase_def lower_char_def)

lemma header_absent_four:
  assumes "lower_case_names hs"
  shows "header_absent hs ''Strict-Transport-Security'' = falsy (hs ''strict-transport-security'')"
    and "header_absent hs ''X-Frame-Options'' = falsy (hs ''x-frame-options'')"
    and "header_absent hs ''X-Content-Type-Options'' = falsy (hs ''x-content-type-options'')"
    and "header_absent hs ''Content-Security-Policy'' = falsy (hs ''content-security-policy'')"
  by (rule header_absent_lower [OF assms]; rule toLowerCase_canonical toLowerCase_securityHeaders)+

lemma lower_case_names_fixtures:
  "lower_case_names Map.empty" "lower_case_names all_headers"
  by (simp_all add: lower_case_names_def all_headers_def toLowerCase_securityHeaders)

section \<open>Claims\<close>

text \<open>
  C8. On the successful path the status-code classifier depends on the status code alone,
  changes nothing but the issue list, and appends at most one issue: "Server error (code)"
  from 500 up, "Client error (code)" from 400 to 499, "Redirect detected (code)" from 300
  to 399, and nothing otherwise; the three branches exclude each other.
\<close>

theorem C8_status_code_classifier:
  "check_status_code code l =
     l\<lparr>l_issues := l_issues l @
        (if code \<ge> 500 then [''Server error ('' @ string_of_int code @ '')'']
         else if 400 \<le> code \<and> code \<le> 499 then [''Client error ('' @ string_of_int code @ '')'']
         else if 300 \<le> code \<and> code \<le> 399 then [''Redirect detected ('' @ string_of_int code @ '')'']
         else [])\<rparr>
   \<and> length (l_issues (check_status_code code l)) \<le> length (l_issues l) + 1"
  by (simp add: check_status_code_def push_issue_def)

theorem C8_status_code_classifier_witness:
  "check_status_code 503 init_locals = init_locals\<lparr>l_issues := [''Server error (503)'']\<rparr>
   \<and> check_status_code 404 init_locals = init_locals\<lparr>l_issues := [''Client error (404)'']\<rparr>
   \<and> check_status_code 301 init_locals = init_locals\<lparr>l_issues := [''Redirect detected (301)'']\<rparr>
   \<and> check_status_code 200 init_locals = init_locals"
  using C8_status_code_classifier [of 503 init_locals] C8_status_code_classifier [of 404 init_locals]
    C8_status_code_classifier [of 301 init_locals] C8_status_code_classifier [of 200 init_locals]
  by (simp add: string_of_int_examples init_locals_def)

text \<open>
  C10. On the successful path the deductions are bounded: before clamping the SEO score is
  at least 40, the security score at least 30 and the performance score at least 65. The
  floor \<open>Math.max(0, score)\<close> of the result therefore returns each score unchanged.
  (After a successful fetch the endpoint answers with a report, or, when parsing or line
  172 throws, with HTTP 500 and no report; for a text body that the parser accepts it
  answers with a report.)
\<close>

theorem C10_clamp_unreachable:
  assumes "u \<noteq> []" and "axios_get (normalizedUrl u) = Inr r"
  shows "(case POST axios_get cheerio_load type_error now (Inr (JString u)) of
       Json200 rep \<Rightarrow>
         (\<exists>d l. cheerio_load (resp_data r) = Inr d
            \<and> run_checks type_error (normalizedUrl u) d r = Inr l
            \<and> 40 \<le> l_seoScore l \<and> 30 \<le> l_securityScore l \<and> 65 \<le> l_performanceScore l
            \<and> seoScore rep = Some (l_seoScore l)
            \<and> securityScore rep = Some (l_securityScore l)
            \<and> performanceScore rep = Some (l_performanceScore l))
     | JsonError code message \<Rightarrow> code = 500)
   \<and> (\<forall>body d. resp_data r = JString body \<and> cheerio_load (resp_data r) = Inr d \<longrightarrow>
        (\<exists>rep. POST axios_get cheerio_load type_error now (Inr (JString u)) = Json200 rep))"
proof (intro conjI allI impI)
  show "case POST axios_get cheerio_load type_error now (Inr (JString u)) of
       Json200 rep \<Rightarrow>
         (\<exists>d l. cheerio_load (resp_data r) = Inr d
            \<and> run_checks type_error (normalizedUrl u) d r = Inr l
            \<and> 40 \<le> l_seoScore l \<and> 30 \<le> l_securityScore l \<and> 65 \<le> l_performanceScore l
            \<and> seoScore rep = Some (l_seoScore l)
            \<and> securityScore rep = Some (l_securityScore l)
            \<and> performanceScore rep = Some (l_performanceScore l))
     | JsonError code message \<Rightarrow> code = 500"
  proof (cases "POST axios_get cheerio_load type_error now (Inr (JString u))")
    case (Json200 rep)
    with POST_answers [where axios_get = axios_get and u = u and r = r and cheerio_load = cheerio_load
        and type_error = type_error and now = now, OF assms]
    obtain d l where d: "cheerio_load (resp_data r) = Inr d"
      and l: "run_checks type_error (normalizedUrl u) d r = Inr l"
      and rep: "rep = build_result (normalizedUrl u) now r l"
      by auto
    have seo: "40 \<le> l_seoScore l"
      using run_checks_scores(1) [OF l] by (simp add: seo_analysis_init_scores)
    have sec: "30 \<le> l_securityScore l"
      using run_checks_scores(2) [OF l] by (simp add: security_analysis_init_scores)
    have perf: "65 \<le> l_performanceScore l"
      by (rule run_checks_scores(3) [OF l])
    from seo have "max 0 (l_seoScore l) = l_seoScore l" by simp
    moreover from sec have "max 0 (l_securityScore l) = l_securityScore l" by simp
    moreover from perf have "max 0 (l_performanceScore l) = l_performanceScore l" by simp
    ultimately show ?thesis
      using Json200 d l seo sec perf by (auto simp add: rep build_result_fields)
  next
    case (JsonError code message)
    with POST_answers [where axios_get = axios_get and u = u and r = r and cheerio_load = cheerio_load
        and type_error = type_error and now = now, OF assms] show ?thesis
      by simp
  qed
next
  fix body d
  assume "resp_data r = JString body \<and> cheerio_load (resp_data r) = Inr d"
  with POST_text [where axios_get = axios_get and u = u and r = r and cheerio_load = cheerio_load
      and type_error = type_error and now = now and body = body and d = d, OF assms]
  show "\<exists>rep. POST axios_get cheerio_load type_error now (Inr (JString u)) = Json200 rep"
    by blast
qed

text \<open>
  The bounds are met: a page with every defect, fetched over plain http without any of
  the four headers, is reported with the scores 40, 30 and 65.
\<close>

theorem C10_clamp_unreachable_witness:
  "''http://example.com'' \<noteq> []
   \<and> answering_get poor_response (normalizedUrl ''http://example.com'') = Inr poor_response
   \<and> (\<exists>rep. POST (answering_get poor_response) (parsed_as poor_page) not_a_function
          ''2026-01-01T00:00:00.000Z'' (Inr (JString ''http://example.com'')) = Json200 rep
      \<and> seoScore rep = Some 40 \<and> securityScore rep = Some 30 \<and> performanceScore rep = Some 65)"
proof -
  have h: "answering_get poor_response (normalizedUrl ''http://example.com'') = Inr poor_response"
    by (simp add: answering_get_def)
  have n: "''http://example.com'' \<noteq> []"
    by simp
  have b: "resp_data poor_response = JString ''<p>    </p>''"
    by (simp add: poor_response_def)
  have p: "parsed_as poor_page (resp_data poor_response) = Inr poor_page"
    by (simp add: parsed_as_def)
  note c10 = C10_clamp_unreachable [where u = "''http://example.com''"
      and axios_get = "answering_get poor_response" and r = poor_response
      and cheerio_load = "parsed_as poor_page" and type_error = not_a_function
      and now = "''2026-01-01T00:00:00.000Z''", OF n h]
  from c10 b p obtain rep where rep: "POST (answering_get poor_response) (parsed_as poor_page)
      not_a_function ''2026-01-01T00:00:00.000Z'' (Inr (JString ''http://example.com'')) = Json200 rep"
    by blast
  with c10 obtain d l where "parsed_as poor_page (resp_data poor_response) = Inr d"
    and "run_checks not_a_function (normalizedUrl ''http://example.com'') d poor_response = Inr l"
    and "seoScore rep = Some (l_seoScore l)" "securityScore rep = Some (l_securityScore l)"
    and "performanceScore rep = Some (l_performanceScore l)"
    by auto
  then have "seoScore rep = Some 40 \<and> securityScore rep = Some 30 \<and> performanceScore rep = Some 65"
    by (auto simp add: parsed_as_def normalizedUrl_examples poor_run)
  with n h rep show ?thesis
    by blast
qed

text \<open>
  C2. For every successfully fetched input, each of the three scores of the report is an
  integer between 0 and 100: each starts at 100, the checks only subtract, and the result
  is the larger of 0 and the remaining score. (After a successful fetch the endpoint
  answers with a report, or, when parsing or line 172 throws, with HTTP 500 and no
  report; for a text body that the parser accepts it answers with a report.)
\<close>

theorem C2_scores_in_range:
  assumes "u \<noteq> []" and "axios_get (normalizedUrl u) = Inr r"
  shows "(case POST axios_get cheerio_load type_error now (Inr (JString u)) of
       Json200 rep \<Rightarrow>
         (\<exists>s p c d l. seoScore rep = Some s \<and> performanceScore rep = Some p
            \<and> securityScore rep = Some c
            \<and> 0 \<le> s \<and> s \<le> 100 \<and> 0 \<le> p \<and> p \<le> 100 \<and> 0 \<le> c \<and> c \<le> 100
            \<and> cheerio_load (resp_data r) = Inr d
            \<and> run_checks type_error (normalizedUrl u) d r = Inr l
            \<and> s = max 0 (l_seoScore l) \<and> l_seoScore l \<le> l_seoScore init_locals
            \<and> p = max 0 (l_performanceScore l)
            \<and> l_performanceScore l \<le> l_performanceScore init_locals
            \<and> c = max 0 (l_securityScore l) \<and> l_securityScore l \<le> l_securityScore init_locals)
     | JsonError code message \<Rightarrow> code = 500)
   \<and> l_seoScore init_locals = 100 \<and> l_performanceScore init_locals = 100
   \<and> l_securityScore init_locals = 100
   \<and> (\<forall>body d. resp_data r = JString body \<and> cheerio_load (resp_data r) = Inr d \<longrightarrow>
        (\<exists>rep. POST axios_get cheerio_load type_error now (Inr (JString u)) = Json200 rep))"
proof -
  let ?P = "\<lambda>rep. \<exists>s p c d l. seoScore rep = Some s \<and> performanceScore rep = Some p
            \<and> securityScore rep = Some c
            \<and> 0 \<le> s \<and> s \<le> 100 \<and> 0 \<le> p \<and> p \<le> 100 \<and> 0 \<le> c \<and> c \<le> 100
            \<and> cheerio_load (resp_data r) = Inr d
            \<and> run_checks type_error (normalizedUrl u) d r = Inr l
            \<and> s = max 0 (l_seoScore l) \<and> l_seoScore l \<le> l_seoScore init_locals
            \<and> p = max 0 (l_performanceScore l)
            \<and> l_performanceScore l \<le> l_performanceScore init_locals
            \<and> c = max 0 (l_securityScore l) \<and> l_securityScore l \<le> l_securityScore init_locals"
  have report: "?P (build_result (normalizedUrl u) now r l)"
    if d: "cheerio_load (resp_data r) = Inr d"
      and l: "run_checks type_error (normalizedUrl u) d r = Inr l" for d l
  proof -
    have seo: "l_seoScore l \<le> 100"
      using run_checks_scores(1) [OF l] by (simp add: seo_analysis_init_scores)
    have sec: "l_securityScore l \<le> 100"
      using run_checks_scores(2) [OF l] by (simp add: security_analysis_init_scores)
    have perf: "l_performanceScore l \<le> 100"
      by (rule run_checks_scores(4) [OF l])
    show ?thesis
      using d l seo sec perf by (simp add: build_result_fields init_locals_fields)
  qed
  have first: "case POST axios_get cheerio_load type_error now (Inr (JString u)) of
      Json200 rep \<Rightarrow> ?P rep | JsonError code message \<Rightarrow> code = 500"
    by (rule POST_fetched_report_500 [where P = ?P and axios_get = axios_get and u = u and r = r
        and cheerio_load = cheerio_load and type_error = type_error and now = now,
        OF assms report])
  have last: "\<forall>body d. resp_data r = JString body \<and> cheerio_load (resp_data r) = Inr d \<longrightarrow>
      (\<exists>rep. POST axios_get cheerio_load type_error now (Inr (JString u)) = Json200 rep)"
    using POST_text [where axios_get = axios_get and u = u and r = r
        and cheerio_load = cheerio_load and type_error = type_error and now = now, OF assms]
    by blast
  show ?thesis
    by (intro conjI) (rule first last init_locals_fields)+
qed

theorem C2_scores_in_range_witness:
  "''example.com'' \<noteq> []
   \<and> answering_get poor_response (normalizedUrl ''example.com'') = Inr poor_response
   \<and> (\<exists>rep s p c. POST (answering_get poor_response) (parsed_as poor_page) not_a_function
          ''2026-01-01T00:00:00.000Z'' (Inr (JString ''example.com'')) = Json200 rep
     \<and> seoScore rep = Some s \<and> performanceScore rep = Some p \<and> securityScore rep = Some c
     \<and> 0 \<le> s \<and> s \<le> 100 \<and> 0 \<le> p \<and> p \<le> 100 \<and> 0 \<le> c \<and> c \<le> 100)"
proof -
  have h: "answering_get poor_response (normalizedUrl ''example.com'') = Inr poor_response"
    by (simp add: answering_get_def)
  have n: "''example.com'' \<noteq> []"
    by simp
  have b: "resp_data poor_response = JString ''<p>    </p>''"
    by (simp add: poor_response_def)
  have p: "parsed_as poor_page (resp_data poor_response) = Inr poor_page"
    by (simp add: parsed_as_def)
  note c2 = C2_scores_in_range [where u = "''example.com''"
      and axios_get = "answering_get poor_response" and r = poor_response
      and cheerio_load = "parsed_as poor_page" and type_error = not_a_function
      and now = "''2026-01-01T00:00:00.000Z''", OF n h]
  from c2 b p obtain rep where rep: "POST (answering_get poor_response) (parsed_as poor_page)
      not_a_function ''2026-01-01T00:00:00.000Z'' (Inr (JString ''example.com'')) = Json200 rep"
    by blast
  with c2 have "\<exists>s p c. seoScore rep = Some s \<and> performanceScore rep = Some p
      \<and> securityScore rep = Some c
      \<and> 0 \<le> s \<and> s \<le> 100 \<and> 0 \<le> p \<and> p \<le> 100 \<and> 0 \<le> c \<and> c \<le> 100"
    by auto
  with n h rep show ?thesis
    by blast
qed

text \<open>
  C1, as stated, speaks of every report of the endpoint. The report of a failed fetch has
  status error with a single issue and no status code, so for it "error if and only if
  more than 5 issues or a status code of 500 and above" fails.
\<close>

theorem C1_counterexample:
  "POST refusing_get (parsed_as home_page) not_a_function ''2026-01-01T00:00:00.000Z''
      (Inr (JString ''example.com''))
     = Json200 (fetch_failed ''https://example.com'' ''2026-01-01T00:00:00.000Z''
         ''timeout of 10000ms exceeded'')
   \<and> status (fetch_failed ''https://example.com'' ''2026-01-01T00:00:00.000Z''
         ''timeout of 10000ms exceeded'') = Error
   \<and> length (issues (fetch_failed ''https://example.com'' ''2026-01-01T00:00:00.000Z''
         ''timeout of 10000ms exceeded'')) = 1
   \<and> statusCode (fetch_failed ''https://example.com'' ''2026-01-01T00:00:00.000Z''
         ''timeout of 10000ms exceeded'') = None"
  by (simp add: POST_def refusing_get_def normalizedUrl_def startsWith_def fetch_failed_def)

text \<open>
  C1, amended. For every report of a successful fetch: the status is error if and only
  if it has more than 5 issues or the status code is at least 500; warning if and only if
  it is not error and there is an issue or more than 3 recommendations were collected by
  the checks; success otherwise. When there is no issue, "Great job! No critical issues
  detected" is appended to the recommendations after the status is derived, and does not
  count for it. (After a successful fetch the endpoint answers with such a report, or,
  when parsing or line 172 throws, with HTTP 500 and no report; for a text body that the
  parser accepts it answers with a report.)
\<close>

theorem C1_status_derivation:
  assumes "u \<noteq> []" and "axios_get (normalizedUrl u) = Inr r"
  shows "(case POST axios_get cheerio_load type_error now (Inr (JString u)) of
       Json200 rep \<Rightarrow>
         statusCode rep = Some (resp_status r)
         \<and> (\<exists>d l. cheerio_load (resp_data r) = Inr d
              \<and> run_checks type_error (normalizedUrl u) d r = Inr l
              \<and> (let err = (length (issues rep) > 5 \<or> resp_status r \<ge> 500);
                      warn = (length (issues rep) > 0 \<or> length (l_recommendations l) > 3)
                  in issues rep = l_issues l
                   \<and> (status rep = Error \<longleftrightarrow> err)
                   \<and> (status rep = Warning \<longleftrightarrow> \<not> err \<and> warn)
                   \<and> (status rep = Success \<longleftrightarrow> \<not> err \<and> \<not> warn)
                   \<and> recommendations rep =
                       (if length (issues rep) = 0
                        then l_recommendations l @ [''Great job! No critical issues detected'']
                        else l_recommendations l)))
     | JsonError code message \<Rightarrow> code = 500)
   \<and> (\<forall>body d. resp_data r = JString body \<and> cheerio_load (resp_data r) = Inr d \<longrightarrow>
        (\<exists>rep. POST axios_get cheerio_load type_error now (Inr (JString u)) = Json200 rep))"
proof -
  let ?P = "\<lambda>rep. statusCode rep = Some (resp_status r)
         \<and> (\<exists>d l. cheerio_load (resp_data r) = Inr d
              \<and> run_checks type_error (normalizedUrl u) d r = Inr l
              \<and> (let err = (length (issues rep) > 5 \<or> resp_status r \<ge> 500);
                      warn = (length (issues rep) > 0 \<or> length (l_recommendations l) > 3)
                  in issues rep = l_issues l
                   \<and> (status rep = Error \<longleftrightarrow> err)
                   \<and> (status rep = Warning \<longleftrightarrow> \<not> err \<and> warn)
                   \<and> (status rep = Success \<longleftrightarrow> \<not> err \<and> \<not> warn)
                   \<and> recommendations rep =
                       (if length (issues rep) = 0
                        then l_recommendations l @ [''Great job! No critical issues detected'']
                        else l_recommendations l)))"
  have report: "?P (build_result (normalizedUrl u) now r l)"
    if d: "cheerio_load (resp_data r) = Inr d"
      and l: "run_checks type_error (normalizedUrl u) d r = Inr l" for d l
  proof -
    let ?rep = "build_result (normalizedUrl u) now r l"
    have "status ?rep = Error \<longleftrightarrow> length (l_issues l) > 5 \<or> resp_status r \<ge> 500"
      by (simp add: build_result_fields determine_status_def)
    moreover have "status ?rep = Warning \<longleftrightarrow>
        \<not> (length (l_issues l) > 5 \<or> resp_status r \<ge> 500)
        \<and> (length (l_issues l) > 0 \<or> length (l_recommendations l) > 3)"
      by (simp add: build_result_fields determine_status_def)
    moreover have "status ?rep = Success \<longleftrightarrow>
        \<not> (length (l_issues l) > 5 \<or> resp_status r \<ge> 500)
        \<and> \<not> (length (l_issues l) > 0 \<or> length (l_recommendations l) > 3)"
      by (simp add: build_result_fields determine_status_def)
    moreover have "recommendations ?rep =
        (if length (l_issues l) = 0
         then l_recommendations l @ [''Great job! No critical issues detected'']
         else l_recommendations l)"
      by (simp add: build_result_fields add_positive_feedback_def push_recommendation_def)
    ultimately have "let err = (length (issues ?rep) > 5 \<or> resp_status r \<ge> 500);
                      warn = (length (issues ?rep) > 0 \<or> length (l_recommendations l) > 3)
                  in issues ?rep = l_issues l
                   \<and> (status ?rep = Error \<longleftrightarrow> err)
                   \<and> (status ?rep = Warning \<longleftrightarrow> \<not> err \<and> warn)
                   \<and> (status ?rep = Success \<longleftrightarrow> \<not> err \<and> \<not> warn)
                   \<and> recommendations ?rep =
                       (if length (issues ?rep) = 0
                        then l_recommendations l @ [''Great job! No critical issues detected'']
                        else l_recommendations l)"
      by (simp add: build_result_fields Let_def)
    with d l show ?thesis
      by (auto simp add: build_result_fields)
  qed
  have first: "case POST axios_get cheerio_load type_error now (Inr (JString u)) of
      Json200 rep \<Rightarrow> ?P rep | JsonError code message \<Rightarrow> code = 500"
    by (rule POST_fetched_report_500 [where P = ?P and axios_get = axios_get and u = u and r = r
        and cheerio_load = cheerio_load and type_error = type_error and now = now,
        OF assms report])
  have last: "\<forall>body d. resp_data r = JString body \<and> cheerio_load (resp_data r) = Inr d \<longrightarrow>
      (\<exists>rep. POST axios_get cheerio_load type_error now (Inr (JString u)) = Json200 rep)"
    using POST_text [where axios_get = axios_get and u = u and r = r
        and cheerio_load = cheerio_load and type_error = type_error and now = now, OF assms]
    by blast
  show ?thesis
    by (intro conjI) (rule first last)+
qed

text \<open>
  A page without issues and with three recommendations: the status is success, and the
  report lists four recommendations, the last one being the positive feedback.
\<close>

theorem C1_status_derivation_witness:
  "''example.com'' \<noteq> []
   \<and> answering_get one_header_response (normalizedUrl ''example.com'') = Inr one_header_response
   \<and> (\<exists>rep. POST (answering_get one_header_response) (parsed_as described_page) not_a_function
          ''2026-01-01T00:00:00.000Z'' (Inr (JString ''example.com'')) = Json200 rep
      \<and> issues rep = [] \<and> status rep = Success \<and> length (recommendations rep) = 4)"
proof -
  have h: "answering_get one_header_response (normalizedUrl ''example.com'') = Inr one_header_response"
    by (simp add: answering_get_def)
  have n: "''example.com'' \<noteq> []"
    by simp
  have b: "resp_data one_header_response =
      JString ''<title>Home</title><meta name=viewport content=width=device-width><h1>Hi</h1>''"
    by (simp add: one_header_response_def home_response_def)
  have p: "parsed_as described_page (resp_data one_header_response) = Inr described_page"
    by (simp add: parsed_as_def)
  have s: "resp_status one_header_response = 200"
    by (simp add: one_header_response_def home_response_def)
  note c1 = C1_status_derivation [where u = "''example.com''"
      and axios_get = "answering_get one_header_response" and r = one_header_response
      and cheerio_load = "parsed_as described_page" and type_error = not_a_function
      and now = "''2026-01-01T00:00:00.000Z''", OF n h]
  from c1 b p obtain rep where rep: "POST (answering_get one_header_response)
      (parsed_as described_page) not_a_function ''2026-01-01T00:00:00.000Z''
      (Inr (JString ''example.com'')) = Json200 rep"
    by blast
  with c1 have "issues rep = [] \<and> status rep = Success \<and> length (recommendations rep) = 4"
    by (auto simp add: s Let_def parsed_as_def normalizedUrl_examples one_header_run init_locals_def)
  with n h rep show ?thesis
    by blast
qed




text \<open>
  C5. A document with the title "Home", no meta description, exactly one \<open>h1\<close>, no image
  without \<open>alt\<close> and a viewport tag with content, fetched over \<open>https://\<close> with all four
  security headers, status 200 and a response time under 1000 ms, is reported with SEO
  score 85, security score 100, the single issue "Missing meta description" and status
  warning.
\<close>

theorem C5_worked_example:
  assumes "u \<noteq> []" and "startsWith (normalizedUrl u) ''https://''"
    and "axios_get (normalizedUrl u) = Inr r"
    and "resp_status r = 200" and "elapsed r < 1000"
    and "\<not> falsy (resp_headers r ''strict-transport-security'')"
    and "\<not> falsy (resp_headers r ''x-frame-options'')"
    and "\<not> falsy (resp_headers r ''x-content-type-options'')"
    and "\<not> falsy (resp_headers r ''content-security-policy'')"
    and "resp_data r = JString body"
    and "cheerio_load (resp_data r) = Inr d"
    and "title_text d = ''Home''"
    and "meta_description d = None"
    and "h1 d = 1"
    and "img_not_alt d = 0"
    and "\<not> falsy (meta_viewport d)"
  shows "\<exists>rep. POST axios_get cheerio_load type_error now (Inr (JString u)) = Json200 rep
     \<and> seoScore rep = Some 85 \<and> securityScore rep = Some 100
     \<and> issues rep = [''Missing meta description''] \<and> status rep = Warning"
proof -
  from POST_text [where axios_get = axios_get and u = u and r = r
      and cheerio_load = cheerio_load and type_error = type_error and now = now
      and body = body and d = d, OF assms(1,3,10,11)]
  obtain l where l: "run_checks type_error (normalizedUrl u) d r = Inr l"
    and post: "POST axios_get cheerio_load type_error now (Inr (JString u)) =
      Json200 (build_result (normalizedUrl u) now r l)"
    by blast
  have pre: "check_response_time (elapsed r) (check_status_code (resp_status r) init_locals) =
      init_locals"
    using assms(4,5) by (simp add: check_response_time_def check_status_code_def)
  have seo: "seo_analysis d init_locals =
      init_locals\<lparr>l_issues := [''Missing meta description''], l_seoScore := 85\<rparr>"
    using assms(12-16)
    by (simp add: seo_check_defs push_defs init_locals_def falsy_def)
  have sec: "security_analysis (normalizedUrl u) (resp_headers r) init_locals = init_locals"
    using assms(2,6-9)
    by (simp add: security_analysis_def check_security_headers_four check_https_def)
  from l have "\<exists>found. l =
      after (after (after init_locals
          (init_locals\<lparr>l_issues := [''Missing meta description''], l_seoScore := 85\<rparr>))
        init_locals) (performance_checks d found init_locals)"
    by (cases "whitespace_test type_error (resp_data r)")
      (auto simp add: run_checks_found pre seo sec)
  then have issues: "l_issues l = [''Missing meta description'']"
    by (auto simp add: after_def init_locals_fields performance_checks_init_scores)
  have seoScore: "l_seoScore l = 85"
    using run_checks_scores(1) [OF l] by (simp add: seo)
  have secScore: "l_securityScore l = 100"
    using run_checks_scores(2) [OF l] by (simp add: sec init_locals_fields)
  show ?thesis
    using post issues seoScore secScore assms(4)
    by (simp add: build_result_fields determine_status_def)
qed

theorem C5_worked_example_witness:
  "''https://example.com'' \<noteq> []
   \<and> startsWith (normalizedUrl ''https://example.com'') ''https://''
   \<and> answering_get home_response (normalizedUrl ''https://example.com'') = Inr home_response
   \<and> resp_status home_response = 200 \<and> elapsed home_response < 1000
   \<and> \<not> falsy (resp_headers home_response ''strict-transport-security'')
   \<and> \<not> falsy (resp_headers home_response ''x-frame-options'')
   \<and> \<not> falsy (resp_headers home_response ''x-content-type-options'')
   \<and> \<not> falsy (resp_headers home_response ''content-security-policy'')
   \<and> resp_data home_response =
       JString ''<title>Home</title><meta name=viewport content=width=device-width><h1>Hi</h1>''
   \<and> parsed_as home_page (resp_data home_response) = Inr home_page
   \<and> title_text home_page = ''Home''
   \<and> meta_description home_page = None
   \<and> h1 home_page = 1
   \<and> img_not_alt home_page = 0
   \<and> \<not> falsy (meta_viewport home_page)
   \<and> (\<exists>rep. POST (answering_get home_response) (parsed_as home_page) not_a_function
          ''2026-01-01T00:00:00.000Z'' (Inr (JString ''https://example.com'')) = Json200 rep
      \<and> seoScore rep = Some 85 \<and> securityScore rep = Some 100
      \<and> issues rep = [''Missing meta description''] \<and> status rep = Warning)"
proof -
  have 1: "''https://example.com'' \<noteq> []"
    by simp
  have 2: "startsWith (normalizedUrl ''https://example.com'') ''https://''"
    by (simp add: normalizedUrl_examples startsWith_def)
  have 3: "answering_get home_response (normalizedUrl ''https://example.com'') = Inr home_response"
    by (simp add: answering_get_def)
  have 4: "resp_status home_response = 200" and 5: "elapsed home_response < 1000"
    by (simp_all add: home_response_def)
  have 6: "\<not> falsy (resp_headers home_response ''strict-transport-security'')"
    and 7: "\<not> falsy (resp_headers home_response ''x-frame-options'')"
    and 8: "\<not> falsy (resp_headers home_response ''x-content-type-options'')"
    and 9: "\<not> falsy (resp_headers home_response ''content-security-policy'')"
    by (simp_all add: home_response_def all_headers_def falsy_def)
  have 10: "resp_data home_response =
      JString ''<title>Home</title><meta name=viewport content=width=device-width><h1>Hi</h1>''"
    by (simp add: home_response_def)
  have 11: "parsed_as home_page (resp_data home_response) = Inr home_page"
    by (simp add: parsed_as_def)
  have 12: "title_text home_page = ''Home''"
    and 13: "meta_description home_page = None"
    and 14: "h1 home_page = 1"
    and 15: "img_not_alt home_page = 0"
    and 16: "\<not> falsy (meta_viewport home_page)"
    by (simp_all add: home_page_def falsy_def)
  note ex = C5_worked_example [where u = "''https://example.com''"
      and axios_get = "answering_get home_response" and r = home_response
      and cheerio_load = "parsed_as home_page" and type_error = not_a_function
      and now = "''2026-01-01T00:00:00.000Z''" and d = home_page
      and body = "''<title>Home</title><meta name=viewport content=width=device-width><h1>Hi</h1>''",
      OF 1 2 3 4 5 6 7 8 9 10 11 12 13 14 15 16]
  show ?thesis
    by (intro conjI) (rule 1 2 3 4 5 6 7 8 9 10 11 12 13 14 15 16 ex)+
qed

text \<open>
  C6. With N the number of \<open>img\<close> elements without an \<open>alt\<close> attribute: when N is
  positive the SEO analysis appends the issue "N images missing alt text" and deducts
  exactly the smaller of 10 and 2 N from the SEO score (10, not 12, for N = 6); when N is
  0 it appends no issue and deducts nothing.
\<close>

theorem C6_images_missing_alt:
  "check_images d l =
     (if img_not_alt d > 0 then
        l\<lparr>l_issues := l_issues l @ [string_of_nat (img_not_alt d) @ '' images missing alt text''],
          l_seoScore := l_seoScore l - min 10 (2 * int (img_not_alt d))\<rparr>
      else l)
   \<and> (case run_checks type_error u d r of
        Inl message \<Rightarrow> run_checks type_error u (d\<lparr>img_not_alt := 0\<rparr>) r = Inl message
      | Inr l1 \<Rightarrow>
          (\<exists>l0. run_checks type_error u (d\<lparr>img_not_alt := 0\<rparr>) r = Inr l0
             \<and> l_seoScore l1 = l_seoScore l0 - min 10 (2 * int (img_not_alt d))
             \<and> (if img_not_alt d > 0
                then string_of_nat (img_not_alt d) @ '' images missing alt text'' \<in> set (l_issues l1)
                else l_issues l1 = l_issues l0)))"
proof (intro conjI)
  show "check_images d l =
     (if img_not_alt d > 0 then
        l\<lparr>l_issues := l_issues l @ [string_of_nat (img_not_alt d) @ '' images missing alt text''],
          l_seoScore := l_seoScore l - min 10 (2 * int (img_not_alt d))\<rparr>
      else l)"
    by (simp add: check_images_def push_defs mult.commute)
  show "case run_checks type_error u d r of
        Inl message \<Rightarrow> run_checks type_error u (d\<lparr>img_not_alt := 0\<rparr>) r = Inl message
      | Inr l1 \<Rightarrow>
          (\<exists>l0. run_checks type_error u (d\<lparr>img_not_alt := 0\<rparr>) r = Inr l0
             \<and> l_seoScore l1 = l_seoScore l0 - min 10 (2 * int (img_not_alt d))
             \<and> (if img_not_alt d > 0
                then string_of_nat (img_not_alt d) @ '' images missing alt text'' \<in> set (l_issues l1)
                else l_issues l1 = l_issues l0))"
    by (rule run_checks_images)
qed

theorem C6_images_missing_alt_witness:
  "check_images poor_page init_locals =
     init_locals\<lparr>l_issues := [''6 images missing alt text''], l_seoScore := 90\<rparr>
   \<and> check_images home_page init_locals = init_locals"
proof -
  have 6: "check_images poor_page init_locals =
      init_locals\<lparr>l_issues := [''6 images missing alt text''], l_seoScore := 90\<rparr>"
    using C6_images_missing_alt [where d = poor_page and l = init_locals
        and u = "''https://example.com''" and r = poor_response and type_error = not_a_function,
        THEN conjunct1]
    by (simp add: poor_page_def init_locals_def string_of_nat.simps digit_char_def)
  have 0: "check_images home_page init_locals = init_locals"
    using C6_images_missing_alt [where d = home_page and l = init_locals
        and u = "''https://example.com''" and r = home_response and type_error = not_a_function,
        THEN conjunct1]
    by (simp add: home_page_def)
  from 6 0 show ?thesis
    by (rule conjI)
qed

text \<open>
  C4. For each of the four headers strict-transport-security, x-frame-options,
  x-content-type-options and content-security-policy, the security analysis tests the
  presence of the header in the response headers without regard to case; for every one
  of the four that is absent it appends "Consider adding Name header" with the canonical
  name and deducts 10 from the security score, each of the four on its own: at most 40,
  besides the 30 of the HTTPS penalty. The response headers are those the HTTP client
  delivers, with names in lower case; a header with an empty value counts as absent.
\<close>

theorem C4_security_headers:
  assumes "lower_case_names hs"
  shows "map (\<lambda>(headerKey, headerName). header_missing hs headerKey) securityHeaders =
       map (\<lambda>(headerKey, headerName). header_absent hs headerName) securityHeaders
   \<and> check_security_headers hs securityHeaders l =
     l\<lparr>l_recommendations := l_recommendations l @
        (if header_absent hs ''Strict-Transport-Security''
           then [''Consider adding Strict-Transport-Security header''] else []) @
        (if header_absent hs ''X-Frame-Options''
           then [''Consider adding X-Frame-Options header''] else []) @
        (if header_absent hs ''X-Content-Type-Options''
           then [''Consider adding X-Content-Type-Options header''] else []) @
        (if header_absent hs ''Content-Security-Policy''
           then [''Consider adding Content-Security-Policy header''] else []),
      l_securityScore := l_securityScore l
        - (if header_absent hs ''Strict-Transport-Security'' then 10 else 0)
        - (if header_absent hs ''X-Frame-Options'' then 10 else 0)
        - (if header_absent hs ''X-Content-Type-Options'' then 10 else 0)
        - (if header_absent hs ''Content-Security-Policy'' then 10 else 0)\<rparr>
   \<and> (\<forall>name. (\<forall>k. toLowerCase k = toLowerCase name \<longrightarrow> hs k = None) \<longrightarrow> header_absent hs name)
   \<and> security_analysis u hs l = check_security_headers hs securityHeaders (check_https u l)
   \<and> l_securityScore (check_https u l) =
       l_securityScore l - (if startsWith u ''https://'' then 0 else 30)
   \<and> l_securityScore l - 70 \<le> l_securityScore (security_analysis u hs l)
   \<and> l_securityScore (check_https u l) - 40 \<le> l_securityScore (security_analysis u hs l)"
proof -
  note absent = header_absent_four [OF assms]
  have tests: "map (\<lambda>(headerKey, headerName). header_missing hs headerKey) securityHeaders =
      map (\<lambda>(headerKey, headerName). header_absent hs headerName) securityHeaders"
    by (simp add: securityHeaders_def header_missing_def toLowerCase_securityHeaders absent)
  have loop: "check_security_headers hs securityHeaders l =
     l\<lparr>l_recommendations := l_recommendations l @
        (if header_absent hs ''Strict-Transport-Security''
           then [''Consider adding Strict-Transport-Security header''] else []) @
        (if header_absent hs ''X-Frame-Options''
           then [''Consider adding X-Frame-Options header''] else []) @
        (if header_absent hs ''X-Content-Type-Options''
           then [''Consider adding X-Content-Type-Options header''] else []) @
        (if header_absent hs ''Content-Security-Policy''
           then [''Consider adding Content-Security-Policy header''] else []),
      l_securityScore := l_securityScore l
        - (if header_absent hs ''Strict-Transport-Security'' then 10 else 0)
        - (if header_absent hs ''X-Frame-Options'' then 10 else 0)
        - (if header_absent hs ''X-Content-Type-Options'' then 10 else 0)
        - (if header_absent hs ''Content-Security-Policy'' then 10 else 0)\<rparr>"
    unfolding absent by (rule check_security_headers_four)
  have none: "\<forall>name. (\<forall>k. toLowerCase k = toLowerCase name \<longrightarrow> hs k = None) \<longrightarrow> header_absent hs name"
    by (simp add: header_absent_def falsy_def)
  have analysis: "security_analysis u hs l = check_security_headers hs securityHeaders (check_https u l)"
    by (simp add: security_analysis_def)
  have https: "l_securityScore (check_https u l) =
      l_securityScore l - (if startsWith u ''https://'' then 0 else 30)"
    by (simp add: check_https_def push_defs)
  have forty: "l_securityScore l' - 40 \<le> l_securityScore (check_security_headers hs securityHeaders l')"
    for l'
    by (simp add: check_security_headers_four)
  have low: "l_securityScore (check_https u l) - 40 \<le> l_securityScore (security_analysis u hs l)"
    unfolding security_analysis_def by (rule forty)
  from low have seventy: "l_securityScore l - 70 \<le> l_securityScore (security_analysis u hs l)"
    unfolding https by (simp split: if_splits)
  show ?thesis
    by (intro conjI) (rule tests loop none analysis https seventy low)+
qed

theorem C4_security_headers_witness:
  "lower_case_names Map.empty \<and> lower_case_names all_headers
   \<and> check_security_headers Map.empty securityHeaders init_locals =
     init_locals\<lparr>l_recommendations :=
       [''Consider adding Strict-Transport-Security header'',
        ''Consider adding X-Frame-Options header'',
        ''Consider adding X-Content-Type-Options header'',
        ''Consider adding Content-Security-Policy header''],
       l_securityScore := 60\<rparr>
   \<and> check_security_headers all_headers securityHeaders init_locals = init_locals"
proof -
  note e = lower_case_names_fixtures(1) and a = lower_case_names_fixtures(2)
  have none: "check_security_headers Map.empty securityHeaders init_locals =
     init_locals\<lparr>l_recommendations :=
       [''Consider adding Strict-Transport-Security header'',
        ''Consider adding X-Frame-Options header'',
        ''Consider adding X-Content-Type-Options header'',
        ''Consider adding Content-Security-Policy header''],
       l_securityScore := 60\<rparr>"
    using C4_security_headers [where hs = Map.empty and l = init_locals
        and u = "''https://example.com''", OF e, THEN conjunct2, THEN conjunct1]
    by (simp add: header_absent_four [OF e] falsy_def init_locals_def)
  have present: "\<not> falsy (all_headers ''strict-transport-security'')"
    "\<not> falsy (all_headers ''x-frame-options'')"
    "\<not> falsy (all_headers ''x-content-type-options'')"
    "\<not> falsy (all_headers ''content-security-policy'')"
    by (simp_all add: all_headers_def falsy_def)
  have all: "check_security_headers all_headers securityHeaders init_locals = init_locals"
    using C4_security_headers [where hs = all_headers and l = init_locals
        and u = "''https://example.com''", OF a, THEN conjunct2, THEN conjunct1]
    by (simp add: header_absent_four [OF a] present)
  from e a none all show ?thesis
    by simp
qed

text \<open>
  C7. An input without a scheme is to be prefixed with \<open>https://\<close>, as \<open>example.com\<close> is.
  The test of line 26 is \<open>url.startsWith('http')\<close>: the input \<open>httpbin.org\<close> has no scheme and
  begins with these four characters, so it is fetched and reported as it is, without
  the prefix.
\<close>

theorem C7_scheme_less_input_not_prefixed:
  "\<not> startsWith ''httpbin.org'' ''http://'' \<and> \<not> startsWith ''httpbin.org'' ''https://''
   \<and> normalizedUrl ''httpbin.org'' = ''httpbin.org''
   \<and> POST rejecting_get (parsed_as home_page) not_a_function ''2026-01-01T00:00:00.000Z''
        (Inr (JString ''httpbin.org'')) =
       Json200 \<lparr>url = ''httpbin.org'', status = Error, statusCode = None, responseTime = None,
         issues = [''Failed to fetch website: Invalid URL''],
         recommendations = [''Ensure the website is accessible and not blocking requests''],
         seoScore = None, performanceScore = None, securityScore = None,
         timestamp = ''2026-01-01T00:00:00.000Z''\<rparr>
   \<and> normalizedUrl ''example.com'' = ''https://example.com''"
  by (simp add: POST_def rejecting_get_def normalizedUrl_def startsWith_def fetch_failed_def)

text \<open>
  C9. On the successful path the issues and the recommendations of the report follow the
  order of the blocks: what the status and latency classifiers append, then what the SEO
  analysis appends, then the security analysis, then the performance analysis (then the
  positive feedback). Each block appends the same strings whatever the lists hold before
  it. The clock only sets the \<open>timestamp\<close>: two runs over the same snapshot agree on
  everything else. (The performance block is the one that can throw, at line 172; it
  does so whatever the lists hold.)
\<close>

theorem C9_block_order:
  "(case performance_analysis type_error d (resp_data r) init_locals of
      Inl message \<Rightarrow> run_checks type_error u d r = Inl message
    | Inr perf \<Rightarrow>
        (\<exists>l1. run_checks type_error u d r = Inr l1
           \<and> (let pre = check_response_time (elapsed r) (check_status_code (resp_status r) init_locals);
                   seo = seo_analysis d init_locals;
                   sec = security_analysis u (resp_headers r) init_locals;
                   rep = build_result u now r l1
               in issues rep = l_issues pre @ l_issues seo @ l_issues sec @ l_issues perf
                \<and> recommendations rep =
                    l_recommendations pre @ l_recommendations seo @ l_recommendations sec
                      @ l_recommendations perf
                      @ (if issues rep = [] then [''Great job! No critical issues detected'']
                         else []))))
   \<and> l_issues (seo_analysis d l) = l_issues l @ l_issues (seo_analysis d init_locals)
   \<and> l_recommendations (seo_analysis d l) =
       l_recommendations l @ l_recommendations (seo_analysis d init_locals)
   \<and> l_issues (security_analysis u hs l) = l_issues l @ l_issues (security_analysis u hs init_locals)
   \<and> l_recommendations (security_analysis u hs l) =
       l_recommendations l @ l_recommendations (security_analysis u hs init_locals)
   \<and> (case performance_analysis type_error d b init_locals of
        Inl message \<Rightarrow> performance_analysis type_error d b l = Inl message
      | Inr perf \<Rightarrow>
          (\<exists>l2. performance_analysis type_error d b l = Inr l2
             \<and> l_issues l2 = l_issues l @ l_issues perf
             \<and> l_recommendations l2 = l_recommendations l @ l_recommendations perf))
   \<and> build_result u now' r l = (build_result u now r l)\<lparr>timestamp := now'\<rparr>
   \<and> POST axios_get cheerio_load type_error now' request =
       (case POST axios_get cheerio_load type_error now request of
          Json200 rep \<Rightarrow> Json200 (rep\<lparr>timestamp := now'\<rparr>)
        | JsonError code message \<Rightarrow> JsonError code message)"
proof -
  let ?pre = "check_response_time (elapsed r) (check_status_code (resp_status r) init_locals)"
  let ?seo = "seo_analysis d init_locals"
  let ?sec = "security_analysis u (resp_headers r) init_locals"
  have first: "case performance_analysis type_error d (resp_data r) init_locals of
      Inl message \<Rightarrow> run_checks type_error u d r = Inl message
    | Inr perf \<Rightarrow>
        (\<exists>l1. run_checks type_error u d r = Inr l1
           \<and> (let pre = ?pre; seo = ?seo; sec = ?sec;
                   rep = build_result u now r l1
               in issues rep = l_issues pre @ l_issues seo @ l_issues sec @ l_issues perf
                \<and> recommendations rep =
                    l_recommendations pre @ l_recommendations seo @ l_recommendations sec
                      @ l_recommendations perf
                      @ (if issues rep = [] then [''Great job! No critical issues detected'']
                         else [])))"
  proof (cases "whitespace_test type_error (resp_data r)")
    case (Inl message)
    then show ?thesis
      by (simp add: run_checks_found performance_analysis_found)
  next
    case (Inr found)
    let ?perf = "performance_checks d found init_locals"
    let ?l = "after (after (after ?pre ?seo) ?sec) ?perf"
    have perf: "performance_analysis type_error d (resp_data r) init_locals = Inr ?perf"
      using Inr by (simp add: performance_analysis_found)
    have l: "run_checks type_error u d r = Inr ?l"
      using Inr by (simp add: run_checks_found)
    have issues: "issues (build_result u now r ?l) =
        l_issues ?pre @ l_issues ?seo @ l_issues ?sec @ l_issues ?perf"
      by (simp add: build_result_fields after_def)
    have recs: "recommendations (build_result u now r ?l) =
        l_recommendations ?pre @ l_recommendations ?seo @ l_recommendations ?sec
          @ l_recommendations ?perf
          @ (if issues (build_result u now r ?l) = []
             then [''Great job! No critical issues detected''] else [])"
      by (simp add: build_result_fields add_positive_feedback_def push_recommendation_def
          after_def)
    from issues recs have "let pre = ?pre; seo = ?seo; sec = ?sec;
                   rep = build_result u now r ?l
               in issues rep = l_issues pre @ l_issues seo @ l_issues sec @ l_issues ?perf
                \<and> recommendations rep =
                    l_recommendations pre @ l_recommendations seo @ l_recommendations sec
                      @ l_recommendations ?perf
                      @ (if issues rep = [] then [''Great job! No critical issues detected'']
                         else [])"
      unfolding Let_def by (rule conjI)
    with l have "\<exists>l1. run_checks type_error u d r = Inr l1
           \<and> (let pre = ?pre; seo = ?seo; sec = ?sec;
                   rep = build_result u now r l1
               in issues rep = l_issues pre @ l_issues seo @ l_issues sec @ l_issues ?perf
                \<and> recommendations rep =
                    l_recommendations pre @ l_recommendations seo @ l_recommendations sec
                      @ l_recommendations ?perf
                      @ (if issues rep = [] then [''Great job! No critical issues detected'']
                         else []))"
      by blast
    then show ?thesis
      by (simp only: perf sum.case)
  qed
  have seo: "l_issues (seo_analysis d l) = l_issues l @ l_issues (seo_analysis d init_locals)"
    "l_recommendations (seo_analysis d l) =
       l_recommendations l @ l_recommendations (seo_analysis d init_locals)"
    using seo_analysis_after [of d l] by (simp_all add: after_def)
  have sec: "l_issues (security_analysis u hs l) = l_issues l @ l_issues (security_analysis u hs init_locals)"
    "l_recommendations (security_analysis u hs l) =
       l_recommendations l @ l_recommendations (security_analysis u hs init_locals)"
    using security_analysis_after [of u hs l] by (simp_all add: after_def)
  have perf: "case performance_analysis type_error d b init_locals of
        Inl message \<Rightarrow> performance_analysis type_error d b l = Inl message
      | Inr perf \<Rightarrow>
          (\<exists>l2. performance_analysis type_error d b l = Inr l2
             \<and> l_issues l2 = l_issues l @ l_issues perf
             \<and> l_recommendations l2 = l_recommendations l @ l_recommendations perf)"
    using performance_analysis_after [of type_error d b l]
    by (cases "performance_analysis type_error d b init_locals") (simp_all add: after_def)
  have clock: "build_result u now' r l = (build_result u now r l)\<lparr>timestamp := now'\<rparr>"
    by (simp add: build_result_def Let_def)
  show ?thesis
    by (intro conjI) (rule first seo sec perf clock POST_clock)+
qed

theorem C9_block_order_witness:
  "\<exists>l. run_checks not_a_function ''http://example.com'' poor_page poor_response = Inr l
   \<and> issues (build_result ''http://example.com'' ''2026-01-01T00:00:00.000Z'' poor_response l) =
     [''Server error (503)'', ''Slow response time (>3 seconds)'']
     @ [''Missing page title'', ''Missing meta description'', ''No H1 heading found'',
        ''6 images missing alt text'', ''Missing viewport meta tag for mobile responsiveness'']
     @ [''Website is not using HTTPS''] @ []
   \<and> recommendations (build_result ''http://example.com'' ''2026-01-01T00:00:00.000Z'' poor_response l) =
     [''Consider optimizing server performance or using a CDN''] @ []
     @ [''Enable HTTPS to secure data transmission'',
        ''Consider adding Strict-Transport-Security header'',
        ''Consider adding X-Frame-Options header'',
        ''Consider adding X-Content-Type-Options header'',
        ''Consider adding Content-Security-Policy header'']
     @ [''Consider reducing inline scripts and using external files'',
        ''Consider reducing number of external scripts'',
        ''Consider combining CSS files to reduce HTTP requests'',
        ''Consider minifying HTML for better performance'']"
proof -
  have pre: "check_response_time (elapsed poor_response)
      (check_status_code (resp_status poor_response) init_locals) =
      init_locals\<lparr>l_issues := [''Server error (503)'', ''Slow response time (>3 seconds)''],
        l_recommendations := [''Consider optimizing server performance or using a CDN'']\<rparr>"
    by (simp add: check_response_time_def check_status_code_def push_defs poor_response_def
        string_of_int_examples init_locals_def)
  have seo: "l_issues (seo_analysis poor_page init_locals) =
      [''Missing page title'', ''Missing meta description'', ''No H1 heading found'',
       ''6 images missing alt text'', ''Missing viewport meta tag for mobile responsiveness'']"
    "l_recommendations (seo_analysis poor_page init_locals) = []"
    by (simp_all add: seo_check_defs push_defs poor_page_def falsy_def init_locals_def
        string_of_nat.simps digit_char_def)
  have sec: "l_issues (security_analysis ''http://example.com'' (resp_headers poor_response) init_locals) =
      [''Website is not using HTTPS'']"
    "l_recommendations (security_analysis ''http://example.com'' (resp_headers poor_response) init_locals) =
      [''Enable HTTPS to secure data transmission'',
       ''Consider adding Strict-Transport-Security header'',
       ''Consider adding X-Frame-Options header'',
       ''Consider adding X-Content-Type-Options header'',
       ''Consider adding Content-Security-Policy header'']"
    by (simp_all add: security_analysis_def check_security_headers_four check_https_def
        push_defs startsWith_def falsy_def poor_response_def init_locals_def)
  have perf: "performance_analysis not_a_function poor_page (resp_data poor_response) init_locals =
      Inr (init_locals\<lparr>l_recommendations :=
        [''Consider reducing inline scripts and using external files'',
         ''Consider reducing number of external scripts'',
         ''Consider combining CSS files to reduce HTTP requests'',
         ''Consider minifying HTML for better performance''],
        l_performanceScore := 65\<rparr>)"
    by (simp add: performance_analysis_found whitespace_test_text performance_check_defs
        Let_def push_defs poor_page_def poor_response_def startsWith_def init_locals_def)
  show ?thesis
    using C9_block_order [where u = "''http://example.com''" and d = poor_page
        and r = poor_response and now = "''2026-01-01T00:00:00.000Z''"
        and now' = "''2026-01-01T00:00:00.000Z''" and l = init_locals
        and hs = "resp_headers poor_response" and b = "resp_data poor_response"
        and axios_get = "answering_get poor_response" and cheerio_load = "parsed_as poor_page"
        and type_error = not_a_function and request = "Inr JUndefined", THEN conjunct1]
    by (auto simp add: Let_def perf pre seo sec init_locals_fields)
qed

end
